theory Spec2Isabelle
  imports Complex_Main
begin

section \<open>Score aggregation: \<open>AnalysisResult\<close> and \<open>ReportGenerator\<close>\<close>

text \<open>
  Python floats are modelled as real numbers: the arithmetic of the scoring formula is
  the exact one, rounding is not modelled. The constants \<open>0.3\<close>, \<open>0.7\<close>, \<open>0.5\<close> and
  \<open>0.8\<close> are the decimal fractions the source writes.
\<close>

datatype issue_value = IssueStr string | IssueNum real

type_synonym issue = "(string \<times> issue_value) list"

text \<open>\<open>code_analyzer.py\<close>, class \<open>AnalysisResult\<close>: the fields set by \<open>__init__\<close>.\<close>

record AnalysisResult =
  code_quality_score :: real
  ai_framework_score :: real
  execution_score :: real
  security_score :: real
  market_value_score :: real
  issues :: "issue list"
  recommendations :: "string list"

text \<open>\<open>report_generator.py\<close>, dataclass \<open>Report\<close>; the dictionary \<open>detailed_scores\<close> is
  kept as the list of its items in insertion order.\<close>

record Report =
  overall_score :: real
  detailed_scores :: "(string \<times> real) list"
  issues :: "issue list"
  recommendations :: "string list"

text \<open>The list comprehension that both sites open with: the four base scores, in the
  order of the source, keeping those that are \<open>> 0\<close>.\<close>

definition base_scores :: "AnalysisResult \<Rightarrow> real list" where
  "base_scores r =
     filter (\<lambda>score. score > 0)
       [ai_framework_score r, code_quality_score r, execution_score r, security_score r]"

text \<open>\<open>AnalysisResult.calculate_overall_score\<close> (\<open>code_analyzer.py\<close>, lines 46-87). The body
  raises nothing on float fields (the division is guarded by the non-empty list), so
  the \<open>except\<close> branch returning \<open>0.0\<close> is never taken.\<close>

definition calculate_overall_score :: "AnalysisResult \<Rightarrow> real" where
  "calculate_overall_score r =
     (let bs = base_scores r;
          market_contribution = market_value_score r * 0.3;
          base_score =
            (if bs \<noteq> [] then
               (let normalized_base = sum_list bs / real (length bs);
                    base_score = normalized_base * 0.7
                in if market_value_score r \<ge> 0.8
                   then (let min_base = 0.5 - market_contribution
                         in max base_score min_base)
                   else base_score)
             else 0.0)
      in base_score + market_contribution)"

text \<open>\<open>ReportGenerator.generate_summary\<close> (\<open>report_generator.py\<close>, lines 18-75). The locals
  \<open>overall_score\<close> and \<open>score_override\<close> as they stand at line 53 are computed by
  \<open>summary_locals\<close>; \<open>generate_summary\<close> builds the report from them.\<close>

definition summary_locals :: "AnalysisResult \<Rightarrow> real \<times> bool" where
  "summary_locals r =
     (let bs = base_scores r;
          market_contribution = market_value_score r * 0.3;
          (base_score, score_override) =
            (if bs \<noteq> [] then
               (let normalized_base = sum_list bs / real (length bs);
                    base_score = normalized_base * 0.7
                in if market_value_score r \<ge> 0.8
                   then (let min_base = 0.5 - market_contribution
                         in (max base_score min_base, True))
                   else (base_score, False))
             else (0.0, False))
      in (base_score + market_contribution, score_override))"

definition score_override :: "AnalysisResult \<Rightarrow> bool" where
  "score_override r = snd (summary_locals r)"

definition override_note :: string where
  "override_note =
     ''NOTE: Project score was adjusted to minimum 5.0/10 due to high market success''"

definition generate_summary :: "AnalysisResult \<Rightarrow> Report" where
  "generate_summary r =
     (let (overall, override) = summary_locals r;
          detailed =
            [(''AI Framework Integration'', ai_framework_score r),
             (''Code Quality'', code_quality_score r),
             (''Execution Performance'', execution_score r),
             (''Market Success'', market_value_score r),
             (''Code Originality'', security_score r)];
          recs = AnalysisResult.recommendations r;
          recs = (if override then override_note # recs else recs)
      in \<lparr> overall_score = overall,
           detailed_scores = detailed,
           issues = AnalysisResult.issues r,
           recommendations = recs \<rparr>)"

text \<open>The values the floor rule is stated with: the mean of the collected base scores
  weighted by 70 percent, and the market contribution.\<close>

definition unfloored_base :: "AnalysisResult \<Rightarrow> real" where
  "unfloored_base r = sum_list (base_scores r) / real (length (base_scores r)) * 0.7"

definition market_contribution :: "AnalysisResult \<Rightarrow> real" where
  "market_contribution r = market_value_score r * 0.3"

section \<open>The GPT analyzer: cache, rate limit, external call\<close>

subsection \<open>Python values, exceptions and the library functions taken as given\<close>

text \<open>A JSON value as \<open>json.loads\<close> returns it and \<open>json.dump\<close> writes it; a dictionary is
  the list of its items. An integer is a Python \<open>int\<close>; a float is a real number (no
  rounding, no infinity, no NaN).\<close>

datatype json =
    JNull
  | JBool bool
  | JInt int
  | JFloat real
  | JStr string
  | JList "json list"
  | JDict "(string \<times> json) list"

text \<open>The exception classes that occur, each with the text \<open>str(e)\<close> gives.\<close>

datatype exception =
    JSONDecodeError string
  | ValueError string
  | TypeError string
  | AttributeError string
  | IndexError string
  | OverflowError string
  | OSError string
  | UnicodeDecodeError string
  | APIError string

fun str_exc :: "exception \<Rightarrow> string" where
  "str_exc (JSONDecodeError m) = m"
| "str_exc (ValueError m) = m"
| "str_exc (TypeError m) = m"
| "str_exc (AttributeError m) = m"
| "str_exc (IndexError m) = m"
| "str_exc (OverflowError m) = m"
| "str_exc (OSError m) = m"
| "str_exc (UnicodeDecodeError m) = m"
| "str_exc (APIError m) = m"

text \<open>The name of a value's type and a name between apostrophes, as Python's messages
  print them.\<close>

fun py_type_name :: "json \<Rightarrow> string" where
  "py_type_name JNull = ''NoneType''"
| "py_type_name (JBool b) = ''bool''"
| "py_type_name (JInt n) = ''int''"
| "py_type_name (JFloat x) = ''float''"
| "py_type_name (JStr s) = ''str''"
| "py_type_name (JList xs) = ''list''"
| "py_type_name (JDict kvs) = ''dict''"

definition quoted :: "string \<Rightarrow> string" where
  "quoted s = CHR 0x27 # s @ [CHR 0x27]"

text \<open>What the Python runtime provides and the repository does not define: the builtin
  \<open>hash\<close> on strings (one function per running process), \<open>json.loads\<close>, and \<open>float\<close> on
  a string. They are parameters of the model.\<close>

record runtime =
  py_hash :: "string \<Rightarrow> int"
  json_loads :: "string \<Rightarrow> exception + json"
  float_of_str :: "string \<Rightarrow> exception + real"

definition sbind :: "'e + 'a \<Rightarrow> ('a \<Rightarrow> 'e + 'b) \<Rightarrow> 'e + 'b" where
  "sbind m f = (case m of Inl e \<Rightarrow> Inl e | Inr x \<Rightarrow> f x)"

text \<open>\<open>str\<close> of an integer, as the f-strings of the cache keys format it.\<close>

definition digit_char :: "nat \<Rightarrow> char" where
  "digit_char d = ''0123456789'' ! d"

fun str_nat :: "nat \<Rightarrow> string" where
  "str_nat n = (if n < 10 then [digit_char n] else str_nat (n div 10) @ [digit_char (n mod 10)])"

declare str_nat.simps [simp del]

definition str_int :: "int \<Rightarrow> string" where
  "str_int i = (if i < 0 then CHR ''-'' # str_nat (nat (- i)) else str_nat (nat i))"

text \<open>\<open>float(x)\<close> on a JSON value. An integer is converted when its nearest double is
  finite, that is when its magnitude is below \<open>2^1024 - 2^970\<close>; the result is taken
  exactly.\<close>

definition float_overflow_bound :: int where
  "float_overflow_bound = 2 ^ 1024 - 2 ^ 970"

fun py_float :: "runtime \<Rightarrow> json \<Rightarrow> exception + real" where
  "py_float rt (JFloat x) = Inr x"
| "py_float rt (JInt n) =
     (if - float_overflow_bound < n \<and> n < float_overflow_bound then Inr (of_int n)
      else Inl (OverflowError ''int too large to convert to float''))"
| "py_float rt (JBool b) = Inr (if b then 1 else 0)"
| "py_float rt (JStr s) = float_of_str rt s"
| "py_float rt v =
     Inl (TypeError (''float() argument must be a string or a real number, not ''
                     @ quoted (py_type_name v)))"

text \<open>\<open>analysis.get(key, default)\<close>: only a dictionary has the method.\<close>

fun dict_get :: "json \<Rightarrow> string \<Rightarrow> json \<Rightarrow> exception + json" where
  "dict_get (JDict kvs) k d = Inr (case map_of kvs k of Some v \<Rightarrow> v | None \<Rightarrow> d)"
| "dict_get v k d =
     Inl (AttributeError (quoted (py_type_name v) @ '' object has no attribute ''
                          @ quoted ''get''))"

text \<open>\<open>str.strip()\<close>, \<open>str.startswith('{')\<close>, \<open>str.find\<close>, \<open>str.rfind\<close> and the slice
  \<open>content[start:end+1]\<close>. A character is a code point below 256; \<open>is_space\<close> holds of
  those of them that \<open>str.strip()\<close> removes (the whitespace of Python beyond that range
  is outside the character type).\<close>

definition is_space :: "char \<Rightarrow> bool" where
  "is_space c = (of_char c \<in> {9, 10, 11, 12, 13, 28, 29, 30, 31, 32, 133, 160 :: nat})"

definition py_strip :: "string \<Rightarrow> string" where
  "py_strip s = rev (dropWhile is_space (rev (dropWhile is_space s)))"

fun py_find :: "char \<Rightarrow> string \<Rightarrow> int" where
  "py_find c [] = - 1"
| "py_find c (x # xs) =
     (if x = c then 0 else (let i = py_find c xs in if i < 0 then - 1 else i + 1))"

definition py_rfind :: "char \<Rightarrow> string \<Rightarrow> int" where
  "py_rfind c s = (let i = py_find c (rev s) in if i < 0 then - 1 else int (length s) - 1 - i)"

definition startswith_brace :: "string \<Rightarrow> bool" where
  "startswith_brace s = (case s of [] \<Rightarrow> False | c # _ \<Rightarrow> c = CHR ''{'')"

subsection \<open>The analyzer object, the cache directory and the surroundings of one call\<close>

text \<open>\<open>gpt_analyzer.py\<close>, class \<open>GPTAnalyzer\<close>: the fields set by \<open>__init__\<close>. The field
  \<open>client\<close> is the external service; what it does in a call is part of \<open>env\<close> below.\<close>

record GPTAnalyzer =
  max_calls :: int
  calls_made :: int
  call_reset_time :: real
  is_test :: bool
  cache_dir :: "string option"
  cache_ttl :: int

text \<open>A file of the cache directory: its modification time, and what
  \<open>open(cache_file, 'r')\<close> followed by \<open>json.load(f)\<close> does on it, which is to return a
  value or to raise.\<close>

record cache_file =
  mtime :: real
  load :: "exception + json"

text \<open>The durable state outside the analyzer: the files by path, and a count of the
  invocations of \<open>client.chat.completions.create\<close> so far (the external calls).\<close>

record world =
  files :: "string \<rightharpoonup> cache_file"
  api_calls :: nat

text \<open>What the external service does when called: it raises, or it returns a response
  whose \<open>choices\<close> carry message contents (\<open>None\<close> is a possible content).\<close>

datatype api_outcome = ApiRaises exception | ApiReturns "string option list"

text \<open>What writing the cache file does: it succeeds; \<open>open(..., 'w')\<close> raises and the
  file stays as it was; or \<open>json.dump\<close> raises after the file was truncated, leaving
  text that is not JSON.\<close>

datatype write_outcome = WriteOk | WriteOpenFails | WritePartial

text \<open>The surroundings of one call: the readings of \<open>time.time()\<close> at the cache-age
  check and at the rate-limit check, the time stamp a written file gets, and the
  outcomes of the external call and of the cache write.\<close>

record env =
  t_cache :: real
  t_limit :: real
  t_write :: real
  api :: api_outcome
  cache_write :: write_outcome

text \<open>\<open>GPTAnalyzer.__init__\<close> (lines 28-52), on the environment variables already
  converted by \<open>int\<close>; \<open>None\<close> is an unset variable.\<close>

record config =
  OPENAI_API_KEY :: "string option"
  MAX_GPT_CALLS :: "int option"
  GPT_ANALYSIS_CACHE_PATH :: "string option"
  GPT_CACHE_TTL :: "int option"

definition GPTAnalyzer_init :: "config \<Rightarrow> real \<Rightarrow> exception + GPTAnalyzer" where
  "GPTAnalyzer_init cfg now =
     (case OPENAI_API_KEY cfg of
        None \<Rightarrow> Inl (ValueError ''OpenAI API key not found in environment'')
      | Some api_key \<Rightarrow>
          if api_key = [] then Inl (ValueError ''OpenAI API key not found in environment'')
          else Inr \<lparr> max_calls = (case MAX_GPT_CALLS cfg of None \<Rightarrow> 5 | Some n \<Rightarrow> n),
                     calls_made = 0,
                     call_reset_time = now + 3600,
                     is_test = (api_key = ''test-key''),
                     cache_dir =
                       (case GPT_ANALYSIS_CACHE_PATH cfg of
                          None \<Rightarrow> None
                        | Some cache_path \<Rightarrow> if cache_path = [] then None else Some cache_path),
                     cache_ttl = (case GPT_CACHE_TTL cfg of None \<Rightarrow> 24 * 3600 | Some n \<Rightarrow> n) \<rparr>)"

subsection \<open>The blocks the four operations are built from\<close>

text \<open>The cache keys (lines 116, 256, 319, 404).\<close>

definition analyze_cache_key :: "runtime \<Rightarrow> string \<Rightarrow> string \<Rightarrow> string" where
  "analyze_cache_key rt code context = ''analyze_'' @ str_int (py_hash rt (code @ context))"

definition verify_cache_key :: "runtime \<Rightarrow> string \<Rightarrow> string" where
  "verify_cache_key rt code = ''verify_'' @ str_int (py_hash rt code)"

definition market_cache_key :: "runtime \<Rightarrow> string \<Rightarrow> string \<Rightarrow> string" where
  "market_cache_key rt project_name repo_url =
     ''market_'' @ str_int (py_hash rt (project_name @ repo_url))"

definition originality_cache_key :: "runtime \<Rightarrow> string \<Rightarrow> string" where
  "originality_cache_key rt code = ''originality_'' @ str_int (py_hash rt code)"

definition cache_path :: "string \<Rightarrow> string \<Rightarrow> string" where
  "cache_path dir cache_key = dir @ ''/'' @ cache_key @ ''.json''"

text \<open>The cache check (lines 118-130, 258-268, 321-331, 406-416): a fresh file whose
  load returns is a hit; only \<open>json.JSONDecodeError\<close> is caught, so any other exception
  of the load leaves the operation.\<close>

datatype cache_result = Hit json | Miss | LookupRaises exception

definition cache_lookup :: "GPTAnalyzer \<Rightarrow> world \<Rightarrow> real \<Rightarrow> string \<Rightarrow> cache_result" where
  "cache_lookup self w now cache_key =
     (case cache_dir self of
        None \<Rightarrow> Miss
      | Some dir \<Rightarrow>
          (case files w (cache_path dir cache_key) of
             None \<Rightarrow> Miss
           | Some f \<Rightarrow>
               (let cache_age = now - mtime f
                in if cache_age < real_of_int (cache_ttl self)
                   then (case load f of
                           Inr v \<Rightarrow> Hit v
                         | Inl (JSONDecodeError m) \<Rightarrow> Miss
                         | Inl e \<Rightarrow> LookupRaises e)
                   else Miss)))"

text \<open>The cache write (lines 206-212, 297-303, 360-366, 445-451): every exception of it
  is caught and logged.\<close>

definition cache_store :: "GPTAnalyzer \<Rightarrow> env \<Rightarrow> string \<Rightarrow> json \<Rightarrow> world \<Rightarrow> world" where
  "cache_store self e cache_key result w =
     (case cache_dir self of
        None \<Rightarrow> w
      | Some dir \<Rightarrow>
          (case cache_write e of
             WriteOk \<Rightarrow>
               w\<lparr>files := (files w)(cache_path dir cache_key \<mapsto>
                                      \<lparr>mtime = t_write e, load = Inr result\<rparr>)\<rparr>
           | WriteOpenFails \<Rightarrow> w
           | WritePartial \<Rightarrow>
               w\<lparr>files := (files w)(cache_path dir cache_key \<mapsto>
                                      \<lparr>mtime = t_write e,
                                       load = Inl (JSONDecodeError ''Expecting value'')\<rparr>)\<rparr>))"

text \<open>The window reset (lines 132-136, 236-240, 384-388).\<close>

definition rate_limit_reset :: "real \<Rightarrow> GPTAnalyzer \<Rightarrow> GPTAnalyzer" where
  "rate_limit_reset current_time self =
     (if current_time \<ge> call_reset_time self
      then self\<lparr>calls_made := 0, call_reset_time := current_time + 3600\<rparr>
      else self)"

text \<open>\<open>response.choices[0].message.content\<close>.\<close>

definition first_content :: "string option list \<Rightarrow> exception + string option" where
  "first_content choices =
     (case choices of [] \<Rightarrow> Inl (IndexError ''list index out of range'') | c # _ \<Rightarrow> Inr c)"

text \<open>Lines 179-187 of \<open>analyze_code_segment\<close>: strip the content and, unless it starts
  with a brace, cut out the text from the first \<open>{\<close> to the last \<open>}\<close>.\<close>

definition clean_content :: "string option \<Rightarrow> exception + string" where
  "clean_content c =
     (case c of
        None \<Rightarrow> Inl (AttributeError (quoted ''NoneType'' @ '' object has no attribute ''
                                      @ quoted ''strip''))
      | Some content \<Rightarrow>
          (let content = py_strip content
           in if \<not> startswith_brace content
              then (let start = py_find (CHR ''{'') content;
                        end = py_rfind (CHR ''}'') content
                    in if start \<ge> 0 \<and> end > start
                       then Inr (take (nat (end + 1 - start)) (drop (nat start) content))
                       else Inl (ValueError ''No valid JSON object found in response''))
              else Inr content))"

text \<open>Lines 190-198: the result dictionary, its fields converted in the order of the
  source.\<close>

definition score_field :: "runtime \<Rightarrow> json \<Rightarrow> string \<Rightarrow> exception + real" where
  "score_field rt analysis k = sbind (dict_get analysis k (JFloat 0.5)) (py_float rt)"

definition build_result :: "runtime \<Rightarrow> json \<Rightarrow> exception + json" where
  "build_result rt analysis =
     sbind (score_field rt analysis ''ai_score'') (\<lambda>ai.
     sbind (score_field rt analysis ''quality_score'') (\<lambda>quality.
     sbind (score_field rt analysis ''originality_score'') (\<lambda>originality.
     sbind (score_field rt analysis ''execution_score'') (\<lambda>execution.
     sbind (score_field rt analysis ''market_value'') (\<lambda>market.
     sbind (dict_get analysis ''findings'' (JList [JStr ''No findings available''])) (\<lambda>findings.
     sbind (dict_get analysis ''recommendations''
              (JList [JStr ''No recommendations available''])) (\<lambda>recs.
     Inr (JDict [(''ai_score'', JFloat ai),
                 (''quality_score'', JFloat quality),
                 (''originality_score'', JFloat originality),
                 (''execution_score'', JFloat execution),
                 (''market_value'', JFloat market),
                 (''findings'', findings),
                 (''recommendations'', recs)]))))))))"

text \<open>Lines 150-204 and 216-218: the external call and the parsing of its response.
  \<open>Inl msg\<close> is a return through \<open>_get_fallback_analysis(msg)\<close>, \<open>Inr result\<close> the parsed
  record. An exception of the call itself reaches the outer handler; in the inner
  \<open>try\<close>, \<open>json.JSONDecodeError\<close> has its own handler and message.\<close>

definition call_and_parse :: "runtime \<Rightarrow> api_outcome \<Rightarrow> string + json" where
  "call_and_parse rt a =
     (case a of
        ApiRaises ex \<Rightarrow> Inl (str_exc ex)
      | ApiReturns choices \<Rightarrow>
          (case sbind (first_content choices) (\<lambda>c.
                sbind (clean_content c) (\<lambda>content.
                sbind (json_loads rt content) (build_result rt))) of
             Inl (JSONDecodeError m) \<Rightarrow> Inl (''JSON parse error: '' @ m)
           | Inl ex \<Rightarrow> Inl (str_exc ex)
           | Inr result \<Rightarrow> Inr result))"

text \<open>The external call of the three other operations (lines 270-295, 333-358,
  418-443): \<open>json.loads(response.choices[0].message.content)\<close>, every exception caught
  by the one handler.\<close>

definition call_and_load :: "runtime \<Rightarrow> api_outcome \<Rightarrow> exception + json" where
  "call_and_load rt a =
     (case a of
        ApiRaises ex \<Rightarrow> Inl ex
      | ApiReturns choices \<Rightarrow>
          sbind (first_content choices) (\<lambda>c.
            case c of
              None \<Rightarrow> Inl (TypeError
                ''the JSON object must be str, bytes or bytearray, not NoneType'')
            | Some content \<Rightarrow> json_loads rt content))"

subsection \<open>The fallback records\<close>

text \<open>\<open>_get_fallback_analysis\<close> (lines 220-230); an empty \<open>error_msg\<close> is falsy.\<close>

definition get_fallback_analysis :: "string \<Rightarrow> json" where
  "get_fallback_analysis error_msg =
     JDict [(''ai_score'', JFloat 0.5),
            (''quality_score'', JFloat 0.5),
            (''originality_score'', JFloat 0.5),
            (''execution_score'', JFloat 0.5),
            (''market_value'', JFloat 0.5),
            (''findings'',
               (if error_msg \<noteq> [] then JList [JStr (''GPT analysis failed: '' @ error_msg)]
                else JList [JStr ''No findings available''])),
            (''recommendations'', JList [JStr ''Enable GPT analysis for enhanced results''])]"

text \<open>\<open>verify_ai_implementation\<close>: the dictionaries of lines 245-251 and 309-315.\<close>

definition verify_rate_limit_fallback :: json where
  "verify_rate_limit_fallback =
     JDict [(''is_real_ai'', JBool False),
            (''implementation_type'', JStr ''unknown''),
            (''confidence'', JFloat 0.0),
            (''evidence'', JList [JStr ''Rate limit reached'']),
            (''suggestions'', JList [JStr ''Try again later''])]"

definition verify_error_fallback :: "string \<Rightarrow> json" where
  "verify_error_fallback msg =
     JDict [(''is_real_ai'', JBool False),
            (''implementation_type'', JStr ''unknown''),
            (''confidence'', JFloat 0.0),
            (''evidence'', JList [JStr (''Analysis failed: '' @ msg)]),
            (''suggestions'', JList [JStr ''Enable GPT analysis for AI verification''])]"

text \<open>\<open>analyze_market_context\<close>: the dictionary of lines 372-380.\<close>

definition market_error_fallback :: "string \<Rightarrow> json" where
  "market_error_fallback msg =
     JDict [(''popularity_score'', JFloat 0.5),
            (''adoption_score'', JFloat 0.5),
            (''impact_score'', JFloat 0.5),
            (''popularity_metrics'', JDict []),
            (''community_metrics'', JDict []),
            (''market_context'', JStr (''Analysis failed: '' @ msg)),
            (''recommendations'', JList [JStr ''Enable GPT analysis for market research''])]"

text \<open>\<open>check_code_originality\<close>: the dictionaries of lines 393-399 and 457-463.\<close>

definition originality_rate_limit_fallback :: json where
  "originality_rate_limit_fallback =
     JDict [(''originality_score'', JFloat 0.5),
            (''is_likely_copied'', JBool False),
            (''common_patterns'', JList [JStr ''Rate limit reached'']),
            (''unique_elements'', JList []),
            (''recommendations'', JList [JStr ''Try again later''])]"

definition originality_error_fallback :: json where
  "originality_error_fallback =
     JDict [(''originality_score'', JFloat 0.5),
            (''is_likely_copied'', JBool False),
            (''common_patterns'', JList []),
            (''unique_elements'', JList []),
            (''recommendations'',
               JList [JStr ''Enable GPT analysis for originality verification''])]"

subsection \<open>The four operations\<close>

text \<open>Each operation takes the analyzer and the world and returns what the caller gets
  (\<open>Inl\<close>: the exception that leaves the operation; \<open>Inr\<close>: the returned dictionary)
  with the analyzer and the world as the call leaves them. The operations run one at
  a time.\<close>

type_synonym outcome = "(exception + json) \<times> GPTAnalyzer \<times> world"

text \<open>\<open>analyze_code_segment\<close> (lines 114-218).\<close>

definition analyze_code_segment ::
  "runtime \<Rightarrow> env \<Rightarrow> string \<Rightarrow> string \<Rightarrow> GPTAnalyzer \<times> world \<Rightarrow> outcome" where
  "analyze_code_segment rt e code context st =
     (let (self, w) = st;
          cache_key = analyze_cache_key rt code context
      in case cache_lookup self w (t_cache e) cache_key of
           Hit v \<Rightarrow> (Inr v, self, w)
         | LookupRaises ex \<Rightarrow> (Inl ex, self, w)
         | Miss \<Rightarrow>
             (let self = rate_limit_reset (t_limit e) self;
                  next_count = calls_made self + 1
              in if next_count > max_calls self
                 then (Inr (get_fallback_analysis ''Rate limit reached''), self, w)
                 else (let self = self\<lparr>calls_made := next_count\<rparr>;
                           w = w\<lparr>api_calls := Suc (api_calls w)\<rparr>
                       in case call_and_parse rt (api e) of
                            Inl msg \<Rightarrow> (Inr (get_fallback_analysis msg), self, w)
                          | Inr result \<Rightarrow>
                              (Inr result, self, cache_store self e cache_key result w))))"

text \<open>\<open>verify_ai_implementation\<close> (lines 234-315).\<close>

definition verify_ai_implementation ::
  "runtime \<Rightarrow> env \<Rightarrow> string \<Rightarrow> GPTAnalyzer \<times> world \<Rightarrow> outcome" where
  "verify_ai_implementation rt e code st =
     (let (self, w) = st;
          self = rate_limit_reset (t_limit e) self
      in if calls_made self \<ge> max_calls self
         then (Inr verify_rate_limit_fallback, self, w)
         else (let self = self\<lparr>calls_made := calls_made self + 1\<rparr>;
                   cache_key = verify_cache_key rt code
               in case cache_lookup self w (t_cache e) cache_key of
                    Hit v \<Rightarrow> (Inr v, self, w)
                  | LookupRaises ex \<Rightarrow> (Inl ex, self, w)
                  | Miss \<Rightarrow>
                      (let w = w\<lparr>api_calls := Suc (api_calls w)\<rparr>
                       in case call_and_load rt (api e) of
                            Inl ex \<Rightarrow> (Inr (verify_error_fallback (str_exc ex)), self, w)
                          | Inr result \<Rightarrow>
                              (Inr result, self, cache_store self e cache_key result w))))"

text \<open>\<open>analyze_market_context\<close> (lines 317-380).\<close>

definition analyze_market_context ::
  "runtime \<Rightarrow> env \<Rightarrow> string \<Rightarrow> string \<Rightarrow> GPTAnalyzer \<times> world \<Rightarrow> outcome" where
  "analyze_market_context rt e project_name repo_url st =
     (let (self, w) = st;
          cache_key = market_cache_key rt project_name repo_url
      in case cache_lookup self w (t_cache e) cache_key of
           Hit v \<Rightarrow> (Inr v, self, w)
         | LookupRaises ex \<Rightarrow> (Inl ex, self, w)
         | Miss \<Rightarrow>
             (let w = w\<lparr>api_calls := Suc (api_calls w)\<rparr>
              in case call_and_load rt (api e) of
                   Inl ex \<Rightarrow> (Inr (market_error_fallback (str_exc ex)), self, w)
                 | Inr result \<Rightarrow>
                     (Inr result, self, cache_store self e cache_key result w)))"

text \<open>\<open>check_code_originality\<close> (lines 382-463).\<close>

definition check_code_originality ::
  "runtime \<Rightarrow> env \<Rightarrow> string \<Rightarrow> GPTAnalyzer \<times> world \<Rightarrow> outcome" where
  "check_code_originality rt e code st =
     (let (self, w) = st;
          self = rate_limit_reset (t_limit e) self
      in if calls_made self \<ge> max_calls self
         then (Inr originality_rate_limit_fallback, self, w)
         else (let self = self\<lparr>calls_made := calls_made self + 1\<rparr>;
                   cache_key = originality_cache_key rt code
               in case cache_lookup self w (t_cache e) cache_key of
                    Hit v \<Rightarrow> (Inr v, self, w)
                  | LookupRaises ex \<Rightarrow> (Inl ex, self, w)
                  | Miss \<Rightarrow>
                      (let w = w\<lparr>api_calls := Suc (api_calls w)\<rparr>
                       in case call_and_load rt (api e) of
                            Inl ex \<Rightarrow> (Inr originality_error_fallback, self, w)
                          | Inr result \<Rightarrow>
                              (Inr result, self, cache_store self e cache_key result w))))"

text \<open>A caller's sequence of operations on one analyzer, each with its surroundings;
  the caller goes on after an exception.\<close>

datatype call =
    AnalyzeCodeSegment string string
  | VerifyAiImplementation string
  | AnalyzeMarketContext string string
  | CheckCodeOriginality string

fun run_call :: "runtime \<Rightarrow> env \<Rightarrow> call \<Rightarrow> GPTAnalyzer \<times> world \<Rightarrow> outcome" where
  "run_call rt e (AnalyzeCodeSegment code context) st = analyze_code_segment rt e code context st"
| "run_call rt e (VerifyAiImplementation code) st = verify_ai_implementation rt e code st"
| "run_call rt e (AnalyzeMarketContext project_name repo_url) st =
     analyze_market_context rt e project_name repo_url st"
| "run_call rt e (CheckCodeOriginality code) st = check_code_originality rt e code st"

fun run_calls :: "runtime \<Rightarrow> (env \<times> call) list \<Rightarrow> GPTAnalyzer \<times> world \<Rightarrow> GPTAnalyzer \<times> world" where
  "run_calls rt [] st = st"
| "run_calls rt ((e, c) # cs) st = run_calls rt cs (snd (run_call rt e c st))"

section \<open>Inputs used in the examples\<close>

text \<open>The result of \<open>test_market_score_integration\<close> (low base scores, market value
  0.9), the one of \<open>test_market_score_weights\<close> (every score 1.0), and its second
  result (no base score, market value 1.0).\<close>

definition popular_weak :: AnalysisResult where
  "popular_weak =
     \<lparr> code_quality_score = 0.3, ai_framework_score = 0.4, execution_score = 0.3,
       security_score = 0.3, market_value_score = 0.9, issues = [],
       recommendations = [''Add unit tests''] \<rparr>"

definition perfect_scores :: AnalysisResult where
  "perfect_scores =
     \<lparr> code_quality_score = 1.0, ai_framework_score = 1.0, execution_score = 1.0,
       security_score = 1.0, market_value_score = 1.0, issues = [],
       recommendations = [''Add unit tests''] \<rparr>"

definition market_only :: AnalysisResult where
  "market_only =
     \<lparr> code_quality_score = 0.0, ai_framework_score = 0.0, execution_score = 0.0,
       security_score = 0.0, market_value_score = 1.0, issues = [],
       recommendations = [''Add unit tests''] \<rparr>"

text \<open>A result with one measured base score only (0.4) and market value 0.9.\<close>

definition popular_single :: AnalysisResult where
  "popular_single =
     \<lparr> code_quality_score = 0.0, ai_framework_score = 0.4, execution_score = 0.0,
       security_score = 0.0, market_value_score = 0.9, issues = [],
       recommendations = [] \<rparr>"

text \<open>A stand-in for the Python runtime in the examples: the hash of a string is its
  length, \<open>json.loads\<close> accepts the text \<open>{}\<close> only, \<open>float\<close> accepts no string.\<close>

definition example_runtime :: runtime where
  "example_runtime =
     \<lparr> py_hash = (\<lambda>s. int (length s)),
       json_loads = (\<lambda>s. if s = ''{}'' then Inr (JDict [])
                          else Inl (JSONDecodeError ''Expecting value'')),
       float_of_str = (\<lambda>s. Inl (ValueError ''could not convert string to float'')) \<rparr>"

text \<open>The analyzer of \<open>test_rate_limit\<close> (two calls per window, cache directory set),
  constructed at time 0; the same analyzer with its budget used up; a world with no
  cache file and no external call yet.\<close>

definition test_config :: config where
  "test_config =
     \<lparr> OPENAI_API_KEY = Some ''test-key'', MAX_GPT_CALLS = Some 2,
       GPT_ANALYSIS_CACHE_PATH = Some ''cache'', GPT_CACHE_TTL = None \<rparr>"

definition fresh_analyzer :: GPTAnalyzer where
  "fresh_analyzer =
     \<lparr> max_calls = 2, calls_made = 0, call_reset_time = 3600, is_test = True,
       cache_dir = Some ''cache'', cache_ttl = 86400 \<rparr>"

definition exhausted_analyzer :: GPTAnalyzer where
  "exhausted_analyzer = fresh_analyzer\<lparr>calls_made := 2\<rparr>"

definition empty_world :: world where
  "empty_world = \<lparr> files = Map.empty, api_calls = 0 \<rparr>"

text \<open>Surroundings of a call: the service answers \<open>{}\<close> ten seconds after the
  construction; the same after the window has run out; the service raises.\<close>

definition good_env :: env where
  "good_env =
     \<lparr> t_cache = 10, t_limit = 10, t_write = 10, api = ApiReturns [Some ''{}''],
       cache_write = WriteOk \<rparr>"

definition late_env :: env where
  "late_env =
     \<lparr> t_cache = 4000, t_limit = 4000, t_write = 4000, api = ApiReturns [Some ''{}''],
       cache_write = WriteOk \<rparr>"

definition failing_env :: env where
  "failing_env =
     \<lparr> t_cache = 10, t_limit = 10, t_write = 10, api = ApiRaises (APIError ''API Error''),
       cache_write = WriteOk \<rparr>"

text \<open>A world whose cache holds, for the code \<open>x\<close> with empty context, a fresh file that
  is not valid UTF-8, so that reading it raises \<open>UnicodeDecodeError\<close>.\<close>

definition unreadable_world :: world where
  "unreadable_world =
     \<lparr> files = [cache_path ''cache'' (analyze_cache_key example_runtime ''x'' '''') \<mapsto>
                  \<lparr> mtime = 0,
                    load = Inl (UnicodeDecodeError
                      ''utf-8 codec cannot decode byte 0xff in position 0: invalid start byte'') \<rparr>],
       api_calls = 0 \<rparr>"

text \<open>The record \<open>analyze_code_segment\<close> builds from the answer \<open>{}\<close>: every field at its
  default.\<close>

definition default_result :: json where
  "default_result =
     JDict [(''ai_score'', JFloat 0.5),
            (''quality_score'', JFloat 0.5),
            (''originality_score'', JFloat 0.5),
            (''execution_score'', JFloat 0.5),
            (''market_value'', JFloat 0.5),
            (''findings'', JList [JStr ''No findings available'']),
            (''recommendations'', JList [JStr ''No recommendations available''])]"

text \<open>A world whose cache holds fresh, readable entries written at time 0: one of
  \<open>analyze_code_segment\<close> for the code \<open>x\<close> with empty context, one of
  \<open>verify_ai_implementation\<close> for the code \<open>x\<close>, one of \<open>analyze_market_context\<close> for
  the project \<open>p\<close> at the address \<open>u\<close>.\<close>

definition cached_verdict :: json where
  "cached_verdict =
     JDict [(''is_real_ai'', JBool True), (''implementation_type'', JStr ''framework''),
            (''confidence'', JFloat 0.9), (''evidence'', JList []), (''suggestions'', JList [])]"

definition cached_market :: json where
  "cached_market =
     JDict [(''popularity_score'', JFloat 0.9), (''adoption_score'', JFloat 0.8),
            (''impact_score'', JFloat 0.7)]"

definition cached_world :: world where
  "cached_world =
     \<lparr> files =
         [cache_path ''cache'' (analyze_cache_key example_runtime ''x'' '''') \<mapsto>
            \<lparr> mtime = 0, load = Inr default_result \<rparr>,
          cache_path ''cache'' (verify_cache_key example_runtime ''x'') \<mapsto>
            \<lparr> mtime = 0, load = Inr cached_verdict \<rparr>,
          cache_path ''cache'' (market_cache_key example_runtime ''p'' ''u'') \<mapsto>
            \<lparr> mtime = 0, load = Inr cached_market \<rparr>],
       api_calls = 0 \<rparr>"

text \<open>A second process: the same runtime with another hash function, as a Python
  process started with another hash seed has.\<close>

definition other_runtime :: runtime where
  "other_runtime = example_runtime\<lparr> py_hash := (\<lambda>s. int (length s) + 1) \<rparr>"

section \<open>Auxiliary notions for the statements\<close>

text \<open>The budget \<open>m\<close> is the analyzer's \<open>max_calls\<close> and the counter is within it.\<close>

definition rate_ok :: "GPTAnalyzer \<Rightarrow> int \<Rightarrow> bool" where
  "rate_ok self m = (max_calls self = m \<and> calls_made self \<le> m)"

text \<open>The numeric fields of a returned dictionary, in order, and the lookup of a field.\<close>

fun numeric_items :: "(string \<times> json) list \<Rightarrow> real list" where
  "numeric_items [] = []"
| "numeric_items ((k, JFloat x) # kvs) = x # numeric_items kvs"
| "numeric_items ((k, JInt n) # kvs) = of_int n # numeric_items kvs"
| "numeric_items ((k, v) # kvs) = numeric_items kvs"

fun numeric_fields :: "json \<Rightarrow> real list" where
  "numeric_fields (JDict kvs) = numeric_items kvs"
| "numeric_fields v = []"

fun json_field :: "json \<Rightarrow> string \<Rightarrow> json option" where
  "json_field (JDict kvs) k = map_of kvs k"
| "json_field v k = None"

text \<open>The number a string of decimal digits stands for.\<close>

definition digit_value :: "char \<Rightarrow> nat" where
  "digit_value c = of_char c - 48"

definition digits_value :: "string \<Rightarrow> nat" where
  "digits_value s = foldl (\<lambda>a c. 10 * a + digit_value c) 0 s"


section \<open>Properties of the score aggregation\<close>

lemma summary_locals_fst: "fst (summary_locals r) = calculate_overall_score r"
  by (simp add: summary_locals_def calculate_overall_score_def Let_def)

lemma generate_summary_fields:
  "overall_score (generate_summary r) = fst (summary_locals r)"
  "Report.recommendations (generate_summary r) =
     (if score_override r then override_note # AnalysisResult.recommendations r
      else AnalysisResult.recommendations r)"
  by (simp_all add: generate_summary_def score_override_def split_beta Let_def)

lemma score_override_iff:
  "score_override r \<longleftrightarrow> base_scores r \<noteq> [] \<and> market_value_score r \<ge> 0.8"
  by (simp add: score_override_def summary_locals_def Let_def)

lemma base_scores_nonempty_iff:
  "base_scores r \<noteq> [] \<longleftrightarrow>
     0 < ai_framework_score r \<or> 0 < code_quality_score r \<or>
     0 < execution_score r \<or> 0 < security_score r"
  by (auto simp add: base_scores_def)

lemma calculate_floored:
  assumes "base_scores r \<noteq> []" and "market_value_score r \<ge> 0.8"
  shows "calculate_overall_score r =
           max (unfloored_base r) (0.5 - market_contribution r) + market_contribution r"
  using assms
  by (simp add: calculate_overall_score_def Let_def unfloored_base_def market_contribution_def)

lemma calculate_no_base:
  assumes "base_scores r = []"
  shows "calculate_overall_score r = market_value_score r * 0.3"
  using assms by (simp add: calculate_overall_score_def Let_def)

text \<open>
  C1 (floor guarantee). Let \<open>positive\<close> be the list of those of the four base scores
  that are greater than 0. When it is not empty and the market value score is at least
  0.8, both \<open>calculate_overall_score\<close> and the report of \<open>generate_summary\<close> add the
  market contribution (market value score times 0.3) to the maximum of the mean of
  \<open>positive\<close> times 0.7 and of 0.5 minus the market contribution, and the overall
  score is at least 0.5. The bounds of the scores in [0, 1] that the claim also assumes
  are not needed.
\<close>

theorem floor_guarantee:
  fixes r :: AnalysisResult
  defines "positive \<equiv>
             filter (\<lambda>s. 0 < s)
               [ai_framework_score r, code_quality_score r, execution_score r,
                security_score r]"
  assumes "0 < ai_framework_score r \<or> 0 < code_quality_score r \<or>
           0 < execution_score r \<or> 0 < security_score r"
      and "market_value_score r \<ge> 0.8"
  shows "calculate_overall_score r =
           max (sum_list positive / real (length positive) * 0.7)
               (0.5 - market_value_score r * 0.3)
           + market_value_score r * 0.3
       \<and> overall_score (generate_summary r) =
           max (sum_list positive / real (length positive) * 0.7)
               (0.5 - market_value_score r * 0.3)
           + market_value_score r * 0.3
       \<and> calculate_overall_score r \<ge> 0.5
       \<and> overall_score (generate_summary r) \<ge> 0.5"
proof -
  have p: "positive = base_scores r"
    by (simp only: positive_def base_scores_def)
  from assms(2) have ne: "base_scores r \<noteq> []"
    by (simp add: base_scores_nonempty_iff)
  have "calculate_overall_score r =
          max (unfloored_base r) (0.5 - market_contribution r) + market_contribution r"
    by (rule calculate_floored [OF ne assms(3)])
  then have eq: "calculate_overall_score r =
           max (sum_list positive / real (length positive) * 0.7)
               (0.5 - market_value_score r * 0.3)
           + market_value_score r * 0.3"
    by (simp only: p unfloored_base_def market_contribution_def)
  have "0.5 - market_value_score r * 0.3
          \<le> max (sum_list positive / real (length positive) * 0.7)
                (0.5 - market_value_score r * 0.3)"
    by (rule max.cobounded2)
  with eq have ge: "calculate_overall_score r \<ge> 0.5"
    by linarith
  from eq ge show ?thesis
    by (simp only: generate_summary_fields(1) summary_locals_fst simp_thms)
qed

theorem floor_guarantee_witness:
  "(0 < ai_framework_score popular_weak \<or> 0 < code_quality_score popular_weak \<or>
    0 < execution_score popular_weak \<or> 0 < security_score popular_weak)
   \<and> market_value_score popular_weak \<ge> 0.8
   \<and> calculate_overall_score popular_weak = 0.5
   \<and> overall_score (generate_summary popular_weak) = 0.5
   \<and> (0 < ai_framework_score popular_single \<or> 0 < code_quality_score popular_single \<or>
      0 < execution_score popular_single \<or> 0 < security_score popular_single)
   \<and> code_quality_score popular_single = 0
   \<and> market_value_score popular_single \<ge> 0.8
   \<and> calculate_overall_score popular_single = 0.55
   \<and> overall_score (generate_summary popular_single) = 0.55"
proof -
  have h1: "0 < ai_framework_score popular_weak \<or> 0 < code_quality_score popular_weak \<or>
            0 < execution_score popular_weak \<or> 0 < security_score popular_weak"
    by (simp add: popular_weak_def)
  have h2: "market_value_score popular_weak \<ge> 0.8"
    by (simp add: popular_weak_def)
  have g1: "0 < ai_framework_score popular_single \<or> 0 < code_quality_score popular_single \<or>
            0 < execution_score popular_single \<or> 0 < security_score popular_single"
    by (simp add: popular_single_def)
  have g2: "market_value_score popular_single \<ge> 0.8"
    by (simp add: popular_single_def)
  have z: "code_quality_score popular_single = 0"
    by (simp add: popular_single_def)
  have w: "calculate_overall_score popular_weak = 0.5
           \<and> overall_score (generate_summary popular_weak) = 0.5"
    using floor_guarantee [OF h1 h2] by (simp add: popular_weak_def)
  have s: "calculate_overall_score popular_single = 0.55
           \<and> overall_score (generate_summary popular_single) = 0.55"
    using floor_guarantee [OF g1 g2] by (simp add: popular_single_def)
  from h1 h2 g1 g2 z w s show ?thesis
    by blast
qed

text \<open>
  C2 (zero-base case). When the four base scores are all 0 and the market value score
  \<open>m\<close> is at most 1, the overall score is exactly 0.3 times \<open>m\<close> at both sites, it is
  below 0.5 (also for \<open>m \<ge> 0.8\<close>: the floor rule is not applied), the override flag is
  false and the report's recommendations are those of the result, with no note.
\<close>

theorem zero_base_case:
  assumes "ai_framework_score r = 0" and "code_quality_score r = 0"
      and "execution_score r = 0" and "security_score r = 0"
      and "market_value_score r \<le> 1"
  shows "calculate_overall_score r = 0.3 * market_value_score r
       \<and> overall_score (generate_summary r) = 0.3 * market_value_score r
       \<and> calculate_overall_score r < 0.5
       \<and> \<not> score_override r
       \<and> Report.recommendations (generate_summary r) = AnalysisResult.recommendations r"
proof -
  from assms(1-4) have e: "base_scores r = []"
    by (simp add: base_scores_def)
  have c: "calculate_overall_score r = 0.3 * market_value_score r"
    using calculate_no_base [OF e] by simp
  have o: "\<not> score_override r"
    using e by (simp add: score_override_iff)
  from c assms(5) have "calculate_overall_score r < 0.5"
    by simp
  with c o show ?thesis
    by (simp add: generate_summary_fields summary_locals_fst)
qed

theorem zero_base_case_witness:
  "ai_framework_score market_only = 0 \<and> code_quality_score market_only = 0
   \<and> execution_score market_only = 0 \<and> security_score market_only = 0
   \<and> market_value_score market_only = 1
   \<and> calculate_overall_score market_only = 0.3
   \<and> overall_score (generate_summary market_only) = 0.3
   \<and> \<not> score_override market_only
   \<and> Report.recommendations (generate_summary market_only) = [''Add unit tests'']"
proof -
  have z: "ai_framework_score market_only = 0" "code_quality_score market_only = 0"
    "execution_score market_only = 0" "security_score market_only = 0"
    by (simp_all add: market_only_def)
  have m: "market_value_score market_only = 1"
    by (simp add: market_only_def)
  have r: "AnalysisResult.recommendations market_only = [''Add unit tests'']"
    by (simp add: market_only_def)
  from m have le: "market_value_score market_only \<le> 1"
    by simp
  from zero_base_case [OF z le] z m r show ?thesis
    by simp
qed

text \<open>
  C3 (override flag). The code sets \<open>score_override\<close> in every call that reaches the
  floor rule, whether or not the maximum changes the base contribution. On the result
  with every score 1.0 the base contribution 0.7 is kept by the maximum, the overall
  score is 1, and still the flag is set and the report opens with the note that the
  score was adjusted to the minimum.
\<close>

theorem override_flag_without_adjustment:
  "unfloored_base perfect_scores = 0.7
   \<and> max (unfloored_base perfect_scores) (0.5 - market_contribution perfect_scores)
       = unfloored_base perfect_scores
   \<and> overall_score (generate_summary perfect_scores) = 1
   \<and> score_override perfect_scores
   \<and> Report.recommendations (generate_summary perfect_scores)
       = [override_note, ''Add unit tests'']"
proof -
  have u: "unfloored_base perfect_scores = 0.7"
    by (simp add: unfloored_base_def base_scores_def perfect_scores_def)
  have m: "market_contribution perfect_scores = 0.3"
    by (simp add: market_contribution_def perfect_scores_def)
  have ne: "base_scores perfect_scores \<noteq> []"
    by (simp add: base_scores_def perfect_scores_def)
  have mv: "market_value_score perfect_scores \<ge> 0.8"
    by (simp add: perfect_scores_def)
  have o: "score_override perfect_scores"
    using ne mv by (simp add: score_override_iff)
  have s: "overall_score (generate_summary perfect_scores) = 1"
    using calculate_floored [OF ne mv] u m
    by (simp add: generate_summary_fields(1) summary_locals_fst)
  have r: "AnalysisResult.recommendations perfect_scores = [''Add unit tests'']"
    by (simp add: perfect_scores_def)
  from u m o s r show ?thesis
    by (simp add: generate_summary_fields(2))
qed

text \<open>
  C4 (one formula at both sites). For every result, the \<open>overall_score\<close> of the report
  that \<open>generate_summary\<close> builds is the value \<open>calculate_overall_score\<close> returns.
\<close>

theorem report_score_agrees:
  "overall_score (generate_summary r) = calculate_overall_score r"
  by (simp add: generate_summary_def calculate_overall_score_def summary_locals_def
        split_beta Let_def)

section \<open>Properties of the GPT analyzer\<close>

subsection \<open>The rate limiter\<close>


lemma rate_limit_reset_fields [simp]:
  "max_calls (rate_limit_reset t self) = max_calls self"
  "cache_dir (rate_limit_reset t self) = cache_dir self"
  "cache_ttl (rate_limit_reset t self) = cache_ttl self"
  by (simp_all add: rate_limit_reset_def)

lemma cache_lookup_cong:
  "cache_dir a = cache_dir b \<Longrightarrow> cache_ttl a = cache_ttl b \<Longrightarrow>
   cache_lookup a w t k = cache_lookup b w t k"
  by (simp add: cache_lookup_def split: option.splits)

lemma cache_lookup_reset [simp]:
  "cache_lookup (rate_limit_reset t' self) w t k = cache_lookup self w t k"
  by (rule cache_lookup_cong) simp_all

lemma cache_lookup_calls_made [simp]:
  "cache_lookup (self\<lparr>calls_made := n\<rparr>) w t k = cache_lookup self w t k"
  by (rule cache_lookup_cong) simp_all

lemma reset_calls_made_le:
  "0 \<le> max_calls self \<Longrightarrow> calls_made self \<le> max_calls self \<Longrightarrow>
   calls_made (rate_limit_reset t self) \<le> max_calls self"
  by (simp add: rate_limit_reset_def)

lemma analyze_code_segment_rate_ok:
  assumes "0 \<le> m" "rate_ok self m"
  shows "rate_ok (fst (snd (analyze_code_segment rt e code ctx (self, w)))) m"
  using assms reset_calls_made_le [of self "t_limit e"]
  by (auto simp add: analyze_code_segment_def rate_ok_def Let_def
      split: cache_result.splits sum.splits)

lemma verify_ai_implementation_rate_ok:
  assumes "0 \<le> m" "rate_ok self m"
  shows "rate_ok (fst (snd (verify_ai_implementation rt e code (self, w)))) m"
  using assms reset_calls_made_le [of self "t_limit e"]
  by (auto simp add: verify_ai_implementation_def rate_ok_def Let_def
      split: cache_result.splits sum.splits)

lemma check_code_originality_rate_ok:
  assumes "0 \<le> m" "rate_ok self m"
  shows "rate_ok (fst (snd (check_code_originality rt e code (self, w)))) m"
  using assms reset_calls_made_le [of self "t_limit e"]
  by (auto simp add: check_code_originality_def rate_ok_def Let_def
      split: cache_result.splits sum.splits)

lemma analyze_market_context_self:
  "fst (snd (analyze_market_context rt e p u (self, w))) = self"
  by (simp add: analyze_market_context_def Let_def split: cache_result.splits sum.splits)

lemma run_call_rate_ok:
  assumes "0 \<le> m" "rate_ok self m"
  shows "rate_ok (fst (snd (run_call rt e c (self, w)))) m"
  using assms
  by (cases c)
     (simp_all add: analyze_code_segment_rate_ok verify_ai_implementation_rate_ok
        check_code_originality_rate_ok analyze_market_context_self)

lemma run_calls_rate_ok:
  assumes "0 \<le> m"
  shows "rate_ok (fst st) m \<Longrightarrow> rate_ok (fst (run_calls rt cs st)) m"
proof (induction cs arbitrary: st)
  case Nil
  then show ?case by simp
next
  case (Cons ec cs)
  obtain e c where ec: "ec = (e, c)" by (cases ec)
  obtain self w where st: "st = (self, w)" by (cases st)
  from Cons.prems st have "rate_ok self m" by simp
  then have "rate_ok (fst (snd (run_call rt e c (self, w)))) m"
    by (rule run_call_rate_ok [OF assms])
  then have "rate_ok (fst (run_calls rt cs (snd (run_call rt e c (self, w))))) m"
    by (rule Cons.IH)
  with ec st show ?case by simp
qed

lemma analyze_exhausted:
  assumes "cache_lookup self w (t_cache e) (analyze_cache_key rt code ctx) = Miss"
      and "t_limit e < call_reset_time self" and "calls_made self = max_calls self"
  shows "analyze_code_segment rt e code ctx (self, w) =
           (Inr (get_fallback_analysis ''Rate limit reached''), self, w)"
  using assms by (simp add: analyze_code_segment_def rate_limit_reset_def Let_def)

lemma analyze_admitted:
  assumes "cache_lookup self w (t_cache e) (analyze_cache_key rt code ctx) = Miss"
      and "t_limit e < call_reset_time self" and "calls_made self < max_calls self"
  shows "calls_made (fst (snd (analyze_code_segment rt e code ctx (self, w)))) = calls_made self + 1
       \<and> call_reset_time (fst (snd (analyze_code_segment rt e code ctx (self, w)))) = call_reset_time self
       \<and> api_calls (snd (snd (analyze_code_segment rt e code ctx (self, w)))) = Suc (api_calls w)"
  using assms by (simp add: analyze_code_segment_def rate_limit_reset_def cache_store_def Let_def
      split: sum.splits option.splits write_outcome.splits)

lemma analyze_after_reset:
  assumes "cache_lookup self w (t_cache e) (analyze_cache_key rt code ctx) = Miss"
      and "call_reset_time self \<le> t_limit e" and "1 \<le> max_calls self"
  shows "calls_made (fst (snd (analyze_code_segment rt e code ctx (self, w)))) = 1
       \<and> call_reset_time (fst (snd (analyze_code_segment rt e code ctx (self, w)))) = t_limit e + 3600
       \<and> api_calls (snd (snd (analyze_code_segment rt e code ctx (self, w)))) = Suc (api_calls w)"
  using assms by (simp add: analyze_code_segment_def rate_limit_reset_def cache_store_def Let_def
      split: sum.splits option.splits write_outcome.splits)

lemma init_test_config: "GPTAnalyzer_init test_config 0 = Inr fresh_analyzer"
  by (simp add: GPTAnalyzer_init_def test_config_def fresh_analyzer_def)

text \<open>
  C5 (rate-limiter contract). With a budget \<open>max_calls \<ge> 0\<close> and a counter within it, as
  the constructor leaves them, the counter never exceeds \<open>max_calls\<close> after any sequence
  of the four operations, and \<open>max_calls\<close> never changes. In \<open>analyze_code_segment\<close>, on a
  cache miss: inside the window with the budget used up, the call returns the
  rate-limited fallback and leaves analyzer and world as they were; inside the window
  with budget left, the counter grows by exactly one; once the clock has reached
  \<open>call_reset_time\<close>, the window is reset before the admission check, so an admitted call
  leaves the counter at 1 and the next reset one hour after the clock reading.
\<close>

theorem rate_limiter_contract:
  "(0 \<le> max_calls self \<and> calls_made self \<le> max_calls self \<longrightarrow>
      calls_made (fst (run_calls rt cs (self, w))) \<le> max_calls self
      \<and> max_calls (fst (run_calls rt cs (self, w))) = max_calls self)
   \<and> (cache_lookup self w (t_cache e) (analyze_cache_key rt code ctx) = Miss
      \<and> t_limit e < call_reset_time self \<and> calls_made self = max_calls self \<longrightarrow>
      analyze_code_segment rt e code ctx (self, w) =
        (Inr (get_fallback_analysis ''Rate limit reached''), self, w))
   \<and> (cache_lookup self w (t_cache e) (analyze_cache_key rt code ctx) = Miss
      \<and> t_limit e < call_reset_time self \<and> calls_made self < max_calls self \<longrightarrow>
      calls_made (fst (snd (analyze_code_segment rt e code ctx (self, w))))
        = calls_made self + 1
      \<and> call_reset_time (fst (snd (analyze_code_segment rt e code ctx (self, w))))
        = call_reset_time self)
   \<and> (cache_lookup self w (t_cache e) (analyze_cache_key rt code ctx) = Miss
      \<and> call_reset_time self \<le> t_limit e \<and> 1 \<le> max_calls self \<longrightarrow>
      calls_made (fst (snd (analyze_code_segment rt e code ctx (self, w)))) = 1
      \<and> call_reset_time (fst (snd (analyze_code_segment rt e code ctx (self, w))))
        = t_limit e + 3600)"
proof (intro conjI impI)
  assume a: "0 \<le> max_calls self \<and> calls_made self \<le> max_calls self"
  then have "rate_ok (fst (self, w)) (max_calls self)"
    by (simp add: rate_ok_def)
  with a have r: "rate_ok (fst (run_calls rt cs (self, w))) (max_calls self)"
    by (simp add: run_calls_rate_ok)
  from r show "calls_made (fst (run_calls rt cs (self, w))) \<le> max_calls self"
    by (simp add: rate_ok_def)
  from r show "max_calls (fst (run_calls rt cs (self, w))) = max_calls self"
    by (simp add: rate_ok_def)
next
  assume "cache_lookup self w (t_cache e) (analyze_cache_key rt code ctx) = Miss
      \<and> t_limit e < call_reset_time self \<and> calls_made self = max_calls self"
  then show "analyze_code_segment rt e code ctx (self, w) =
        (Inr (get_fallback_analysis ''Rate limit reached''), self, w)"
    by (simp add: analyze_exhausted)
next
  assume a: "cache_lookup self w (t_cache e) (analyze_cache_key rt code ctx) = Miss
      \<and> t_limit e < call_reset_time self \<and> calls_made self < max_calls self"
  then show "calls_made (fst (snd (analyze_code_segment rt e code ctx (self, w))))
        = calls_made self + 1"
    by (simp add: analyze_admitted)
  from a show "call_reset_time (fst (snd (analyze_code_segment rt e code ctx (self, w))))
        = call_reset_time self"
    by (simp add: analyze_admitted)
next
  assume a: "cache_lookup self w (t_cache e) (analyze_cache_key rt code ctx) = Miss
      \<and> call_reset_time self \<le> t_limit e \<and> 1 \<le> max_calls self"
  then show "calls_made (fst (snd (analyze_code_segment rt e code ctx (self, w)))) = 1"
    by (simp add: analyze_after_reset)
  from a show "call_reset_time (fst (snd (analyze_code_segment rt e code ctx (self, w))))
        = t_limit e + 3600"
    by (simp add: analyze_after_reset)
qed

lemma fresh_miss:
  "cache_lookup fresh_analyzer empty_world t k = Miss"
  "cache_lookup exhausted_analyzer empty_world t k = Miss"
  by (simp_all add: cache_lookup_def empty_world_def split: option.splits)

theorem rate_limiter_contract_witness:
  "0 \<le> max_calls fresh_analyzer \<and> calls_made fresh_analyzer \<le> max_calls fresh_analyzer
   \<and> calls_made (fst (run_calls example_runtime
        [(good_env, AnalyzeCodeSegment ''def test1(): pass'' ''''),
         (good_env, AnalyzeCodeSegment ''def test2(): pass'' ''''),
         (good_env, AnalyzeCodeSegment ''def test3(): pass'' '''')]
        (fresh_analyzer, empty_world))) \<le> 2
   \<and> analyze_code_segment example_runtime good_env ''def test3(): pass'' ''''
        (exhausted_analyzer, empty_world)
       = (Inr (get_fallback_analysis ''Rate limit reached''), exhausted_analyzer, empty_world)
   \<and> calls_made (fst (snd (analyze_code_segment example_runtime good_env
        ''def test1(): pass'' '''' (fresh_analyzer, empty_world)))) = 1
   \<and> calls_made (fst (snd (analyze_code_segment example_runtime late_env
        ''def test3(): pass'' '''' (exhausted_analyzer, empty_world)))) = 1
   \<and> call_reset_time (fst (snd (analyze_code_segment example_runtime late_env
        ''def test3(): pass'' '''' (exhausted_analyzer, empty_world)))) = 7600"
proof -
  have inv: "0 \<le> max_calls fresh_analyzer \<and> calls_made fresh_analyzer \<le> max_calls fresh_analyzer"
    by (simp add: fresh_analyzer_def)
  have m: "max_calls fresh_analyzer = 2"
    by (simp add: fresh_analyzer_def)
  have ex: "cache_lookup exhausted_analyzer empty_world (t_cache good_env)
              (analyze_cache_key example_runtime ''def test3(): pass'' '''') = Miss
            \<and> t_limit good_env < call_reset_time exhausted_analyzer
            \<and> calls_made exhausted_analyzer = max_calls exhausted_analyzer"
    by (simp add: fresh_miss) (simp add: exhausted_analyzer_def fresh_analyzer_def good_env_def)
  have ad: "cache_lookup fresh_analyzer empty_world (t_cache good_env)
              (analyze_cache_key example_runtime ''def test1(): pass'' '''') = Miss
            \<and> t_limit good_env < call_reset_time fresh_analyzer
            \<and> calls_made fresh_analyzer < max_calls fresh_analyzer"
    by (simp add: fresh_miss) (simp add: fresh_analyzer_def good_env_def)
  have rs: "cache_lookup exhausted_analyzer empty_world (t_cache late_env)
              (analyze_cache_key example_runtime ''def test3(): pass'' '''') = Miss
            \<and> call_reset_time exhausted_analyzer \<le> t_limit late_env
            \<and> 1 \<le> max_calls exhausted_analyzer"
    by (simp add: fresh_miss) (simp add: exhausted_analyzer_def fresh_analyzer_def late_env_def)
  have t: "t_limit late_env + 3600 = 7600"
    by (simp add: late_env_def)
  note c1 = rate_limiter_contract [where self = fresh_analyzer and rt = example_runtime
      and cs = "[(good_env, AnalyzeCodeSegment ''def test1(): pass'' ''''),
        (good_env, AnalyzeCodeSegment ''def test2(): pass'' ''''),
        (good_env, AnalyzeCodeSegment ''def test3(): pass'' '''')]"
      and w = empty_world and e = good_env and code = "''def test1(): pass''"
      and ctx = "''''"]
  note c2 = rate_limiter_contract [where self = exhausted_analyzer and rt = example_runtime
      and cs = "[]" and w = empty_world and e = good_env and code = "''def test3(): pass''"
      and ctx = "''''"]
  note c3 = c1
  note c4 = rate_limiter_contract [where self = exhausted_analyzer and rt = example_runtime
      and cs = "[]" and w = empty_world and e = late_env and code = "''def test3(): pass''"
      and ctx = "''''"]
  from c1 inv m have p1: "calls_made (fst (run_calls example_runtime
        [(good_env, AnalyzeCodeSegment ''def test1(): pass'' ''''),
         (good_env, AnalyzeCodeSegment ''def test2(): pass'' ''''),
         (good_env, AnalyzeCodeSegment ''def test3(): pass'' '''')]
        (fresh_analyzer, empty_world))) \<le> 2"
    by simp
  from c2 ex have p2: "analyze_code_segment example_runtime good_env ''def test3(): pass'' ''''
        (exhausted_analyzer, empty_world)
       = (Inr (get_fallback_analysis ''Rate limit reached''), exhausted_analyzer, empty_world)"
    by blast
  from c3 ad have p3: "calls_made (fst (snd (analyze_code_segment example_runtime good_env
        ''def test1(): pass'' '''' (fresh_analyzer, empty_world)))) = calls_made fresh_analyzer + 1"
    by blast
  from c4 rs have p4: "calls_made (fst (snd (analyze_code_segment example_runtime late_env
        ''def test3(): pass'' '''' (exhausted_analyzer, empty_world)))) = 1
      \<and> call_reset_time (fst (snd (analyze_code_segment example_runtime late_env
        ''def test3(): pass'' '''' (exhausted_analyzer, empty_world)))) = t_limit late_env + 3600"
    by blast
  have c0: "calls_made fresh_analyzer = 0"
    by (simp add: fresh_analyzer_def)
  from inv p1 p2 p3 p4 t c0 show ?thesis
    by simp
qed

subsection \<open>Exceptions that leave analyze_code_segment\<close>

lemma analyze_code_segment_raises_iff:
  "fst (analyze_code_segment rt e code ctx (self, w)) = Inl ex \<longleftrightarrow>
   cache_lookup self w (t_cache e) (analyze_cache_key rt code ctx) = LookupRaises ex"
  by (simp add: analyze_code_segment_def Let_def split: cache_result.splits sum.splits)

lemma cache_lookup_raises_iff:
  "cache_lookup self w now k = LookupRaises ex \<longleftrightarrow>
   (\<exists>dir f. cache_dir self = Some dir \<and> files w (cache_path dir k) = Some f
      \<and> now - mtime f < real_of_int (cache_ttl self) \<and> load f = Inl ex
      \<and> (\<forall>m. ex \<noteq> JSONDecodeError m))"
  by (auto simp add: cache_lookup_def Let_def split: option.splits sum.splits exception.splits)

lemma str_int_1: "str_int 1 = ''1''"
  by (simp add: str_int_def str_nat.simps digit_char_def)

lemma example_keys:
  "analyze_cache_key example_runtime ''x'' '''' = ''analyze_1''"
  "verify_cache_key example_runtime ''x'' = ''verify_1''"
  by (simp_all add: analyze_cache_key_def verify_cache_key_def example_runtime_def str_int_1)

text \<open>
  C7 (never raises). \<open>analyze_code_segment\<close> lets an exception out exactly when its cache
  check raises (\<open>analyze_code_segment_raises_iff\<close>), which happens on a fresh cache
  file whose reading raises anything but \<open>json.JSONDecodeError\<close>
  (\<open>cache_lookup_raises_iff\<close>): the check catches that one class only. On a fresh
  cache file that is not valid UTF-8 the call raises \<open>UnicodeDecodeError\<close> to its caller
  instead of recomputing.
\<close>

theorem unreadable_cache_entry_raises:
  "cache_lookup fresh_analyzer unreadable_world (t_cache good_env)
     (analyze_cache_key example_runtime ''x'' '''')
     = LookupRaises (UnicodeDecodeError
         ''utf-8 codec cannot decode byte 0xff in position 0: invalid start byte'')
   \<and> analyze_code_segment example_runtime good_env ''x'' '''' (fresh_analyzer, unreadable_world)
     = (Inl (UnicodeDecodeError
          ''utf-8 codec cannot decode byte 0xff in position 0: invalid start byte''),
        fresh_analyzer, unreadable_world)"
proof -
  have l: "cache_lookup fresh_analyzer unreadable_world (t_cache good_env)
     (analyze_cache_key example_runtime ''x'' '''')
     = LookupRaises (UnicodeDecodeError
         ''utf-8 codec cannot decode byte 0xff in position 0: invalid start byte'')"
    by (simp add: cache_lookup_def fresh_analyzer_def unreadable_world_def good_env_def)
  then show ?thesis
    by (simp add: analyze_code_segment_def)
qed

subsection \<open>What a call writes and when it calls the service\<close>


lemma analyze_code_segment_rate_limited:
  assumes "cache_lookup self w (t_cache e) (analyze_cache_key rt code ctx) = Miss"
      and "max_calls self < calls_made (rate_limit_reset (t_limit e) self) + 1"
  shows "analyze_code_segment rt e code ctx (self, w) =
           (Inr (get_fallback_analysis ''Rate limit reached''), rate_limit_reset (t_limit e) self, w)"
  using assms by (simp add: analyze_code_segment_def Let_def)

lemma analyze_code_segment_call_failed:
  assumes "cache_lookup self w (t_cache e) (analyze_cache_key rt code ctx) = Miss"
      and "calls_made (rate_limit_reset (t_limit e) self) + 1 \<le> max_calls self"
      and "call_and_parse rt (api e) = Inl msg"
  shows "analyze_code_segment rt e code ctx (self, w) =
           (Inr (get_fallback_analysis msg),
            (rate_limit_reset (t_limit e) self)
              \<lparr>calls_made := calls_made (rate_limit_reset (t_limit e) self) + 1\<rparr>,
            w\<lparr>api_calls := Suc (api_calls w)\<rparr>)"
  using assms by (simp add: analyze_code_segment_def Let_def)

lemma analyze_code_segment_parsed:
  assumes "cache_lookup self w (t_cache e) (analyze_cache_key rt code ctx) = Miss"
      and "calls_made (rate_limit_reset (t_limit e) self) + 1 \<le> max_calls self"
      and "call_and_parse rt (api e) = Inr result"
  shows "analyze_code_segment rt e code ctx (self, w) =
           (Inr result,
            (rate_limit_reset (t_limit e) self)
              \<lparr>calls_made := calls_made (rate_limit_reset (t_limit e) self) + 1\<rparr>,
            cache_store
              ((rate_limit_reset (t_limit e) self)
                 \<lparr>calls_made := calls_made (rate_limit_reset (t_limit e) self) + 1\<rparr>)
              e (analyze_cache_key rt code ctx) result (w\<lparr>api_calls := Suc (api_calls w)\<rparr>))"
  using assms by (simp add: analyze_code_segment_def Let_def)

lemma api_calls_cache_store [simp]:
  "api_calls (cache_store self e k result w) = api_calls w"
  by (simp add: cache_store_def split: option.splits write_outcome.splits)

lemma analyze_code_segment_fields [simp]:
  "max_calls (fst (snd (analyze_code_segment rt e code ctx (self, w)))) = max_calls self"
  "cache_dir (fst (snd (analyze_code_segment rt e code ctx (self, w)))) = cache_dir self"
  "cache_ttl (fst (snd (analyze_code_segment rt e code ctx (self, w)))) = cache_ttl self"
  by (simp_all add: analyze_code_segment_def Let_def split: cache_result.splits sum.splits)

lemma cache_lookup_miss_later:
  assumes "cache_lookup self w t k = Miss" and "t \<le> t'"
      and "cache_dir self' = cache_dir self" and "cache_ttl self' = cache_ttl self"
      and "files w' = files w"
  shows "cache_lookup self' w' t' k = Miss"
  using assms
  by (auto simp add: cache_lookup_def Let_def split: option.splits sum.splits exception.splits if_splits)

lemma analyze_code_segment_admitted_calls:
  assumes "cache_lookup self w (t_cache e) (analyze_cache_key rt code ctx) = Miss"
      and "calls_made (rate_limit_reset (t_limit e) self) + 1 \<le> max_calls self"
  shows "api_calls (snd (snd (analyze_code_segment rt e code ctx (self, w)))) = Suc (api_calls w)"
  using assms by (simp add: analyze_code_segment_def Let_def split: sum.splits)

lemma analyze_code_segment_write_only_after_success:
  assumes "files (snd (snd (analyze_code_segment rt e code ctx (self, w)))) \<noteq> files w"
  shows "cache_lookup self w (t_cache e) (analyze_cache_key rt code ctx) = Miss
       \<and> calls_made (rate_limit_reset (t_limit e) self) + 1 \<le> max_calls self
       \<and> (\<exists>result. call_and_parse rt (api e) = Inr result
             \<and> fst (analyze_code_segment rt e code ctx (self, w)) = Inr result)"
  using assms
  by (auto simp add: analyze_code_segment_def Let_def split: cache_result.splits sum.splits if_splits)

text \<open>
  C10 (fallback results are never cached). A call of \<open>analyze_code_segment\<close> changes the
  cache files only on a cache miss, after admission, when the external call returned
  and its response was parsed, and then it returns the parsed record. On a cache miss
  that is rate-limited, or whose call or parsing fails, the files are left as they were
  and a fallback record is returned; a later call with the same inputs (the clock not
  running backwards) that has budget then performs the external call.
\<close>

theorem fallback_never_cached:
  fixes rt e code ctx self w e2
  defines "out \<equiv> analyze_code_segment rt e code ctx (self, w)"
  shows
  "(files (snd (snd out)) \<noteq> files w \<longrightarrow>
      cache_lookup self w (t_cache e) (analyze_cache_key rt code ctx) = Miss
      \<and> calls_made (rate_limit_reset (t_limit e) self) + 1 \<le> max_calls self
      \<and> (\<exists>result. call_and_parse rt (api e) = Inr result \<and> fst out = Inr result))
   \<and> (cache_lookup self w (t_cache e) (analyze_cache_key rt code ctx) = Miss
      \<and> (max_calls self < calls_made (rate_limit_reset (t_limit e) self) + 1
          \<or> (\<exists>msg. call_and_parse rt (api e) = Inl msg)) \<longrightarrow>
      files (snd (snd out)) = files w
      \<and> (\<exists>msg. fst out = Inr (get_fallback_analysis msg))
      \<and> (t_cache e \<le> t_cache e2
          \<and> calls_made (rate_limit_reset (t_limit e2) (fst (snd out))) + 1 \<le> max_calls self
          \<longrightarrow> api_calls (snd (snd (analyze_code_segment rt e2 code ctx (snd out))))
                = Suc (api_calls (snd (snd out)))))"
proof -
  have first: "files (snd (snd out)) \<noteq> files w \<longrightarrow>
      cache_lookup self w (t_cache e) (analyze_cache_key rt code ctx) = Miss
      \<and> calls_made (rate_limit_reset (t_limit e) self) + 1 \<le> max_calls self
      \<and> (\<exists>result. call_and_parse rt (api e) = Inr result \<and> fst out = Inr result)"
    unfolding out_def using analyze_code_segment_write_only_after_success by blast
  have second: "files (snd (snd out)) = files w
      \<and> (\<exists>msg. fst out = Inr (get_fallback_analysis msg))
      \<and> (t_cache e \<le> t_cache e2
          \<and> calls_made (rate_limit_reset (t_limit e2) (fst (snd out))) + 1 \<le> max_calls self
          \<longrightarrow> api_calls (snd (snd (analyze_code_segment rt e2 code ctx (snd out))))
                = Suc (api_calls (snd (snd out))))"
    if a: "cache_lookup self w (t_cache e) (analyze_cache_key rt code ctx) = Miss
      \<and> (max_calls self < calls_made (rate_limit_reset (t_limit e) self) + 1
          \<or> (\<exists>msg. call_and_parse rt (api e) = Inl msg))"
  proof -
    from a have miss: "cache_lookup self w (t_cache e) (analyze_cache_key rt code ctx) = Miss"
      by simp
    have fb: "files (snd (snd out)) = files w
              \<and> (\<exists>msg. fst out = Inr (get_fallback_analysis msg))"
    proof (cases "max_calls self < calls_made (rate_limit_reset (t_limit e) self) + 1")
      case True
      from analyze_code_segment_rate_limited [OF miss True] show ?thesis
        unfolding out_def by auto
    next
      case False
      with a obtain msg where msg: "call_and_parse rt (api e) = Inl msg"
        by blast
      from False have adm: "calls_made (rate_limit_reset (t_limit e) self) + 1 \<le> max_calls self"
        by simp
      from analyze_code_segment_call_failed [OF miss adm msg] show ?thesis
        unfolding out_def by auto
    qed
    have again: "api_calls (snd (snd (analyze_code_segment rt e2 code ctx (snd out))))
                = Suc (api_calls (snd (snd out)))"
      if b: "t_cache e \<le> t_cache e2
          \<and> calls_made (rate_limit_reset (t_limit e2) (fst (snd out))) + 1 \<le> max_calls self"
    proof -
      have miss2: "cache_lookup (fst (snd out)) (snd (snd out)) (t_cache e2)
                     (analyze_cache_key rt code ctx) = Miss"
      proof (rule cache_lookup_miss_later [OF miss])
        from b show "t_cache e \<le> t_cache e2" by simp
        show "cache_dir (fst (snd out)) = cache_dir self" unfolding out_def by simp
        show "cache_ttl (fst (snd out)) = cache_ttl self" unfolding out_def by simp
        from fb show "files (snd (snd out)) = files w" by simp
      qed
      have m: "max_calls (fst (snd out)) = max_calls self"
        unfolding out_def by simp
      from b m have adm2: "calls_made (rate_limit_reset (t_limit e2) (fst (snd out))) + 1
                            \<le> max_calls (fst (snd out))"
        by simp
      have "api_calls (snd (snd (analyze_code_segment rt e2 code ctx
                (fst (snd out), snd (snd out)))))
              = Suc (api_calls (snd (snd out)))"
        by (rule analyze_code_segment_admitted_calls [OF miss2 adm2])
      then show ?thesis
        by simp
    qed
    from fb again show ?thesis
      by blast
  qed
  from first second show ?thesis
    by blast
qed

lemma clean_content_braces: "clean_content (Some ''{}'') = Inr ''{}''"
  by (simp add: clean_content_def py_strip_def is_space_def startswith_brace_def)

lemma build_result_empty: "build_result rt (JDict []) = Inr default_result"
  by (simp add: build_result_def score_field_def sbind_def default_result_def)

lemma call_and_parse_good:
  "call_and_parse example_runtime (api good_env) = Inr default_result"
  by (simp add: call_and_parse_def good_env_def first_content_def sbind_def
        clean_content_braces example_runtime_def build_result_empty)

lemma call_and_parse_failing:
  "call_and_parse example_runtime (api failing_env) = Inl ''API Error''"
  by (simp add: call_and_parse_def failing_env_def)

lemma fresh_analyzer_fields:
  "max_calls fresh_analyzer = 2" "calls_made fresh_analyzer = 0"
  "call_reset_time fresh_analyzer = 3600" "cache_dir fresh_analyzer = Some ''cache''"
  "cache_ttl fresh_analyzer = 86400"
  by (simp_all add: fresh_analyzer_def)

lemma env_times:
  "t_cache good_env = 10" "t_limit good_env = 10" "t_cache failing_env = 10"
  "t_limit failing_env = 10" "t_cache late_env = 4000" "t_limit late_env = 4000"
  by (simp_all add: good_env_def failing_env_def late_env_def)

theorem fallback_never_cached_witness:
  "cache_lookup fresh_analyzer empty_world (t_cache failing_env)
     (analyze_cache_key example_runtime ''x'' '''') = Miss
   \<and> call_and_parse example_runtime (api failing_env) = Inl ''API Error''
   \<and> files (snd (snd (analyze_code_segment example_runtime failing_env ''x'' ''''
        (fresh_analyzer, empty_world)))) = files empty_world
   \<and> api_calls (snd (snd (analyze_code_segment example_runtime good_env ''x'' ''''
        (snd (analyze_code_segment example_runtime failing_env ''x'' ''''
           (fresh_analyzer, empty_world))))))
       = Suc (api_calls (snd (snd (analyze_code_segment example_runtime failing_env ''x'' ''''
           (fresh_analyzer, empty_world)))))
   \<and> files (snd (snd (analyze_code_segment example_runtime good_env ''x'' ''''
        (fresh_analyzer, empty_world)))) \<noteq> files empty_world
   \<and> call_and_parse example_runtime (api good_env) = Inr default_result
   \<and> (\<exists>result. call_and_parse example_runtime (api good_env) = Inr result
         \<and> fst (analyze_code_segment example_runtime good_env ''x'' ''''
                 (fresh_analyzer, empty_world)) = Inr result)"
proof -
  have miss: "cache_lookup fresh_analyzer empty_world t
     (analyze_cache_key example_runtime ''x'' '''') = Miss" for t
    by (rule fresh_miss)
  have adm: "calls_made (rate_limit_reset (t_limit e) fresh_analyzer) + 1
               \<le> max_calls fresh_analyzer" for e :: env
    by (simp add: rate_limit_reset_def fresh_analyzer_fields)
  note failed = analyze_code_segment_call_failed [OF miss adm call_and_parse_failing]
  note parsed = analyze_code_segment_parsed [OF miss adm call_and_parse_good]
  have h1: "cache_lookup fresh_analyzer empty_world (t_cache failing_env)
              (analyze_cache_key example_runtime ''x'' '''') = Miss
            \<and> (max_calls fresh_analyzer
                  < calls_made (rate_limit_reset (t_limit failing_env) fresh_analyzer) + 1
               \<or> (\<exists>msg. call_and_parse example_runtime (api failing_env) = Inl msg))"
    using miss call_and_parse_failing by simp
  have h2: "t_cache failing_env \<le> t_cache good_env
            \<and> calls_made (rate_limit_reset (t_limit good_env)
                 (fst (snd (analyze_code_segment example_runtime failing_env ''x'' ''''
                    (fresh_analyzer, empty_world))))) + 1 \<le> max_calls fresh_analyzer"
    by (simp add: failed env_times rate_limit_reset_def fresh_analyzer_fields)
  have h3: "files (snd (snd (analyze_code_segment example_runtime good_env ''x'' ''''
        (fresh_analyzer, empty_world)))) \<noteq> files empty_world"
    unfolding parsed
    by (simp add: cache_store_def rate_limit_reset_def fresh_analyzer_fields good_env_def
          empty_world_def)
  note t1 = fallback_never_cached [where rt = example_runtime and e = failing_env
      and code = "''x''" and ctx = "''''" and self = fresh_analyzer and w = empty_world
      and ?e2.0 = good_env]
  note t2 = fallback_never_cached [where rt = example_runtime and e = good_env
      and code = "''x''" and ctx = "''''" and self = fresh_analyzer and w = empty_world
      and ?e2.0 = good_env]
  from t1 h1 h2 have c1: "files (snd (snd (analyze_code_segment example_runtime failing_env
        ''x'' '''' (fresh_analyzer, empty_world)))) = files empty_world
      \<and> api_calls (snd (snd (analyze_code_segment example_runtime good_env ''x'' ''''
        (snd (analyze_code_segment example_runtime failing_env ''x'' ''''
           (fresh_analyzer, empty_world))))))
       = Suc (api_calls (snd (snd (analyze_code_segment example_runtime failing_env ''x'' ''''
           (fresh_analyzer, empty_world)))))"
    by blast
  from t2 h3 have c2: "\<exists>result. call_and_parse example_runtime (api good_env) = Inr result
         \<and> fst (analyze_code_segment example_runtime good_env ''x'' ''''
                 (fresh_analyzer, empty_world)) = Inr result"
    by blast
  from miss call_and_parse_failing call_and_parse_good c1 c2 h3 show ?thesis
    by blast
qed

subsection \<open>The order of cache check, admission and external call\<close>







lemma str_int_2: "str_int 2 = ''2''"
  by (simp add: str_int_def str_nat.simps digit_char_def)

lemma market_key_example: "market_cache_key example_runtime ''p'' ''u'' = ''market_2''"
  by (simp add: market_cache_key_def example_runtime_def str_int_2)

lemma originality_key_example: "originality_cache_key example_runtime ''x'' = ''originality_1''"
  by (simp add: originality_cache_key_def example_runtime_def str_int_1)

lemma cached_world_lookups:
  "cache_lookup fresh_analyzer cached_world (t_cache good_env)
     (analyze_cache_key example_runtime ''x'' '''') = Hit default_result"
  "cache_lookup fresh_analyzer cached_world (t_cache good_env)
     (verify_cache_key example_runtime ''x'') = Hit cached_verdict"
  "cache_lookup fresh_analyzer cached_world (t_cache good_env)
     (market_cache_key example_runtime ''p'' ''u'') = Hit cached_market"
  by (simp_all add: cache_lookup_def cached_world_def example_keys market_key_example
        fresh_analyzer_fields env_times cache_path_def)






subsection \<open>The fallback records and what the operations return\<close>

lemma fallback_numeric_fields:
  "numeric_fields (get_fallback_analysis msg) = [0.5, 0.5, 0.5, 0.5, 0.5]"
  "numeric_fields (market_error_fallback msg) = [0.5, 0.5, 0.5]"
  "numeric_fields originality_rate_limit_fallback = [0.5]"
  "numeric_fields originality_error_fallback = [0.5]"
  "numeric_fields verify_rate_limit_fallback = [0]"
  "numeric_fields (verify_error_fallback msg) = [0]"
  by (simp_all add: get_fallback_analysis_def market_error_fallback_def
        originality_rate_limit_fallback_def originality_error_fallback_def
        verify_rate_limit_fallback_def verify_error_fallback_def)

lemma rate_limit_findings:
  "json_field (get_fallback_analysis ''Rate limit reached'') ''findings''
     = Some (JList [JStr ''GPT analysis failed: Rate limit reached''])"
  by (simp add: get_fallback_analysis_def)

lemma analyze_code_segment_returns:
  "(\<exists>ex. fst (analyze_code_segment rt e code ctx (self, w)) = Inl ex)
   \<or> (\<exists>v. fst (analyze_code_segment rt e code ctx (self, w)) = Inr v
          \<and> cache_lookup self w (t_cache e) (analyze_cache_key rt code ctx) = Hit v)
   \<or> (\<exists>result. fst (analyze_code_segment rt e code ctx (self, w)) = Inr result
          \<and> call_and_parse rt (api e) = Inr result)
   \<or> (\<exists>msg. fst (analyze_code_segment rt e code ctx (self, w))
          = Inr (get_fallback_analysis msg))"
  by (auto simp add: analyze_code_segment_def Let_def split: cache_result.splits sum.splits)

lemma verify_ai_implementation_returns:
  "(\<exists>ex. fst (verify_ai_implementation rt e code (self, w)) = Inl ex)
   \<or> (\<exists>v. fst (verify_ai_implementation rt e code (self, w)) = Inr v
          \<and> cache_lookup self w (t_cache e) (verify_cache_key rt code) = Hit v)
   \<or> (\<exists>result. fst (verify_ai_implementation rt e code (self, w)) = Inr result
          \<and> call_and_load rt (api e) = Inr result)
   \<or> fst (verify_ai_implementation rt e code (self, w)) = Inr verify_rate_limit_fallback
   \<or> (\<exists>msg. fst (verify_ai_implementation rt e code (self, w))
          = Inr (verify_error_fallback msg))"
  by (auto simp add: verify_ai_implementation_def Let_def split: cache_result.splits sum.splits)

lemma analyze_market_context_returns:
  "(\<exists>ex. fst (analyze_market_context rt e p u (self, w)) = Inl ex)
   \<or> (\<exists>v. fst (analyze_market_context rt e p u (self, w)) = Inr v
          \<and> cache_lookup self w (t_cache e) (market_cache_key rt p u) = Hit v)
   \<or> (\<exists>result. fst (analyze_market_context rt e p u (self, w)) = Inr result
          \<and> call_and_load rt (api e) = Inr result)
   \<or> (\<exists>msg. fst (analyze_market_context rt e p u (self, w))
          = Inr (market_error_fallback msg))"
  by (auto simp add: analyze_market_context_def Let_def split: cache_result.splits sum.splits)

lemma check_code_originality_returns:
  "(\<exists>ex. fst (check_code_originality rt e code (self, w)) = Inl ex)
   \<or> (\<exists>v. fst (check_code_originality rt e code (self, w)) = Inr v
          \<and> cache_lookup self w (t_cache e) (originality_cache_key rt code) = Hit v)
   \<or> (\<exists>result. fst (check_code_originality rt e code (self, w)) = Inr result
          \<and> call_and_load rt (api e) = Inr result)
   \<or> fst (check_code_originality rt e code (self, w)) = Inr originality_rate_limit_fallback
   \<or> fst (check_code_originality rt e code (self, w)) = Inr originality_error_fallback"
  by (auto simp add: check_code_originality_def Let_def split: cache_result.splits sum.splits)

text \<open>
  C8 (fallback values), as the code has it. The fallback records of
  \<open>analyze_code_segment\<close>, \<open>analyze_market_context\<close> and \<open>check_code_originality\<close> have
  0.5 in every numeric field; both fallback records of \<open>verify_ai_implementation\<close>
  have one numeric field, \<open>confidence\<close>, which is 0.0. A rate-limited call of
  \<open>analyze_code_segment\<close> returns \<open>_get_fallback_analysis("Rate limit reached")\<close>, whose
  findings are the one-element list \<open>["GPT analysis failed: Rate limit reached"]\<close>.
  These are all the fallbacks: each operation lets an exception out, or returns the
  cached record, or the record obtained from the service's answer, or one of the
  fallback records named here.
\<close>

theorem fallback_values:
  "numeric_fields (get_fallback_analysis msg) = [0.5, 0.5, 0.5, 0.5, 0.5]
   \<and> numeric_fields (market_error_fallback msg) = [0.5, 0.5, 0.5]
   \<and> numeric_fields originality_rate_limit_fallback = [0.5]
   \<and> numeric_fields originality_error_fallback = [0.5]
   \<and> numeric_fields verify_rate_limit_fallback = [0]
   \<and> numeric_fields (verify_error_fallback msg) = [0]
   \<and> (cache_lookup self w (t_cache e) (analyze_cache_key rt code ctx) = Miss
       \<and> max_calls self < calls_made (rate_limit_reset (t_limit e) self) + 1 \<longrightarrow>
       fst (analyze_code_segment rt e code ctx (self, w))
         = Inr (get_fallback_analysis ''Rate limit reached''))
   \<and> json_field (get_fallback_analysis ''Rate limit reached'') ''findings''
       = Some (JList [JStr ''GPT analysis failed: Rate limit reached''])
   \<and> ((\<exists>ex. fst (analyze_code_segment rt e code ctx (self, w)) = Inl ex)
      \<or> (\<exists>v. fst (analyze_code_segment rt e code ctx (self, w)) = Inr v
             \<and> cache_lookup self w (t_cache e) (analyze_cache_key rt code ctx) = Hit v)
      \<or> (\<exists>result. fst (analyze_code_segment rt e code ctx (self, w)) = Inr result
             \<and> call_and_parse rt (api e) = Inr result)
      \<or> (\<exists>m. fst (analyze_code_segment rt e code ctx (self, w))
             = Inr (get_fallback_analysis m)))
   \<and> ((\<exists>ex. fst (verify_ai_implementation rt e code (self, w)) = Inl ex)
      \<or> (\<exists>v. fst (verify_ai_implementation rt e code (self, w)) = Inr v
             \<and> cache_lookup self w (t_cache e) (verify_cache_key rt code) = Hit v)
      \<or> (\<exists>result. fst (verify_ai_implementation rt e code (self, w)) = Inr result
             \<and> call_and_load rt (api e) = Inr result)
      \<or> fst (verify_ai_implementation rt e code (self, w)) = Inr verify_rate_limit_fallback
      \<or> (\<exists>m. fst (verify_ai_implementation rt e code (self, w))
             = Inr (verify_error_fallback m)))
   \<and> ((\<exists>ex. fst (analyze_market_context rt e p u (self, w)) = Inl ex)
      \<or> (\<exists>v. fst (analyze_market_context rt e p u (self, w)) = Inr v
             \<and> cache_lookup self w (t_cache e) (market_cache_key rt p u) = Hit v)
      \<or> (\<exists>result. fst (analyze_market_context rt e p u (self, w)) = Inr result
             \<and> call_and_load rt (api e) = Inr result)
      \<or> (\<exists>m. fst (analyze_market_context rt e p u (self, w))
             = Inr (market_error_fallback m)))
   \<and> ((\<exists>ex. fst (check_code_originality rt e code (self, w)) = Inl ex)
      \<or> (\<exists>v. fst (check_code_originality rt e code (self, w)) = Inr v
             \<and> cache_lookup self w (t_cache e) (originality_cache_key rt code) = Hit v)
      \<or> (\<exists>result. fst (check_code_originality rt e code (self, w)) = Inr result
             \<and> call_and_load rt (api e) = Inr result)
      \<or> fst (check_code_originality rt e code (self, w)) = Inr originality_rate_limit_fallback
      \<or> fst (check_code_originality rt e code (self, w)) = Inr originality_error_fallback)"
proof -
  have limited: "cache_lookup self w (t_cache e) (analyze_cache_key rt code ctx) = Miss
       \<and> max_calls self < calls_made (rate_limit_reset (t_limit e) self) + 1 \<longrightarrow>
       fst (analyze_code_segment rt e code ctx (self, w))
         = Inr (get_fallback_analysis ''Rate limit reached'')"
    using analyze_code_segment_rate_limited [of self w e rt code ctx] by simp
  note returns = analyze_code_segment_returns [of rt e code ctx self w]
    verify_ai_implementation_returns [of rt e code self w]
    analyze_market_context_returns [of rt e p u self w]
    check_code_originality_returns [of rt e code self w]
  show ?thesis
    by (intro conjI fallback_numeric_fields rate_limit_findings limited returns)
qed

lemma exhausted_rate_limited:
  "max_calls exhausted_analyzer
     < calls_made (rate_limit_reset (t_limit good_env) exhausted_analyzer) + 1"
  by (simp add: rate_limit_reset_def exhausted_analyzer_def fresh_analyzer_fields env_times)

theorem fallback_values_witness:
  "cache_lookup exhausted_analyzer empty_world (t_cache good_env)
       (analyze_cache_key example_runtime ''x'' '''') = Miss
   \<and> max_calls exhausted_analyzer
       < calls_made (rate_limit_reset (t_limit good_env) exhausted_analyzer) + 1
   \<and> fst (analyze_code_segment example_runtime good_env ''x'' '''' (exhausted_analyzer, empty_world))
       = Inr (get_fallback_analysis ''Rate limit reached'')
   \<and> numeric_fields (get_fallback_analysis ''Rate limit reached'') = [0.5, 0.5, 0.5, 0.5, 0.5]"
  using fallback_values [where self = exhausted_analyzer and w = empty_world and e = good_env
      and rt = example_runtime and code = "''x''" and ctx = "''''"
      and msg = "''Rate limit reached''" and p = "''p''" and u = "''u''"]
    fresh_miss(2) exhausted_rate_limited
  by blast

theorem fallback_neutrality_counterexample:
  "fst (verify_ai_implementation example_runtime good_env ''x'' (exhausted_analyzer, empty_world))
       = Inr verify_rate_limit_fallback
   \<and> json_field verify_rate_limit_fallback ''confidence'' = Some (JFloat 0)
   \<and> json_field verify_rate_limit_fallback ''confidence'' \<noteq> Some (JFloat 0.5)
   \<and> fst (analyze_code_segment example_runtime good_env ''x'' '''' (exhausted_analyzer, empty_world))
       = Inr (get_fallback_analysis ''Rate limit reached'')
   \<and> json_field (get_fallback_analysis ''Rate limit reached'') ''findings''
       = Some (JList [JStr ''GPT analysis failed: Rate limit reached''])
   \<and> json_field (get_fallback_analysis ''Rate limit reached'') ''findings''
       \<noteq> Some (JList [JStr ''Rate limit reached''])"
proof -
  have v: "fst (verify_ai_implementation example_runtime good_env ''x''
                 (exhausted_analyzer, empty_world)) = Inr verify_rate_limit_fallback"
    by (simp add: verify_ai_implementation_def rate_limit_reset_def exhausted_analyzer_def
          fresh_analyzer_fields env_times Let_def)
  have c: "json_field verify_rate_limit_fallback ''confidence'' = Some (JFloat 0)"
    by (simp add: verify_rate_limit_fallback_def)
  have a: "fst (analyze_code_segment example_runtime good_env ''x'' ''''
                 (exhausted_analyzer, empty_world))
             = Inr (get_fallback_analysis ''Rate limit reached'')"
    using analyze_code_segment_rate_limited [OF fresh_miss(2) exhausted_rate_limited]
    by simp
  from v c a rate_limit_findings show ?thesis
    by simp
qed

subsection \<open>The cache keys\<close>

lemma digit_value_digit_char: "d < 10 \<Longrightarrow> digit_value (digit_char d) = d"
proof -
  assume "d < 10"
  then have "d \<in> {0, 1, 2, 3, 4, 5, 6, 7, 8, 9}"
    by auto
  then show ?thesis
    by (auto simp add: digit_value_def digit_char_def)
qed

lemma digit_char_not_minus: "d < 10 \<Longrightarrow> digit_char d \<noteq> CHR ''-''"
proof -
  assume "d < 10"
  then have "d \<in> {0, 1, 2, 3, 4, 5, 6, 7, 8, 9}"
    by auto
  then show ?thesis
    by (auto simp add: digit_char_def)
qed

lemma digits_value_snoc: "digits_value (s @ [c]) = 10 * digits_value s + digit_value c"
  by (simp add: digits_value_def)

lemma str_nat_small: "n < 10 \<Longrightarrow> str_nat n = [digit_char n]"
  by (subst str_nat.simps) simp

lemma str_nat_large:
  "\<not> n < 10 \<Longrightarrow> str_nat n = str_nat (n div 10) @ [digit_char (n mod 10)]"
  by (subst str_nat.simps) simp

lemma digits_value_str_nat: "digits_value (str_nat n) = n"
proof (induction n rule: str_nat.induct)
  case (1 n)
  show ?case
  proof (cases "n < 10")
    case True
    then have "digits_value (str_nat n) = digit_value (digit_char n)"
      by (simp add: str_nat_small digits_value_def)
    with True show ?thesis
      by (simp add: digit_value_digit_char)
  next
    case False
    with "1.IH" have ih: "digits_value (str_nat (n div 10)) = n div 10"
      by simp
    have "digits_value (str_nat n)
            = 10 * digits_value (str_nat (n div 10)) + digit_value (digit_char (n mod 10))"
      by (simp only: str_nat_large [OF False] digits_value_snoc)
    also have "\<dots> = 10 * (n div 10) + n mod 10"
      by (simp add: ih digit_value_digit_char)
    also have "\<dots> = n"
      by simp
    finally show ?thesis .
  qed
qed

lemma str_nat_inj:
  assumes "str_nat a = str_nat b"
  shows "a = b"
proof -
  have "a = digits_value (str_nat a)"
    by (simp only: digits_value_str_nat)
  also have "\<dots> = digits_value (str_nat b)"
    by (simp only: assms)
  also have "\<dots> = b"
    by (rule digits_value_str_nat)
  finally show ?thesis .
qed

lemma str_nat_no_minus: "CHR ''-'' \<notin> set (str_nat n)"
proof (induction n rule: str_nat.induct)
  case (1 n)
  show ?case
  proof (cases "n < 10")
    case True
    then show ?thesis
      using digit_char_not_minus [of n] by (simp add: str_nat_small)
  next
    case False
    with "1.IH" have ih: "CHR ''-'' \<notin> set (str_nat (n div 10))"
      by simp
    have "n mod 10 < 10"
      by simp
    then have "digit_char (n mod 10) \<noteq> CHR ''-''"
      by (rule digit_char_not_minus)
    with ih show ?thesis
      by (simp add: str_nat_large [OF False])
  qed
qed

lemma str_int_inj: "str_int a = str_int b \<longleftrightarrow> a = b"
proof
  assume eq: "str_int a = str_int b"
  show "a = b"
  proof (cases "a < 0")
    case True
    note a = True
    show ?thesis
    proof (cases "b < 0")
      case True
      with a eq have "str_nat (nat (- a)) = str_nat (nat (- b))"
        by (simp add: str_int_def)
      then have "nat (- a) = nat (- b)"
        by (rule str_nat_inj)
      with a True show ?thesis
        by simp
    next
      case False
      with a eq have "CHR ''-'' # str_nat (nat (- a)) = str_nat (nat b)"
        by (simp add: str_int_def)
      then have "CHR ''-'' \<in> set (str_nat (nat b))"
        by (metis list.set_intros(1))
      with str_nat_no_minus show ?thesis
        by blast
    qed
  next
    case False
    note a = False
    show ?thesis
    proof (cases "b < 0")
      case True
      with a eq have "str_nat (nat a) = CHR ''-'' # str_nat (nat (- b))"
        by (simp add: str_int_def)
      then have "CHR ''-'' \<in> set (str_nat (nat a))"
        by (metis list.set_intros(1))
      with str_nat_no_minus show ?thesis
        by blast
    next
      case False
      with a eq have "str_nat (nat a) = str_nat (nat b)"
        by (simp add: str_int_def)
      then have "nat a = nat b"
        by (rule str_nat_inj)
      with a False show ?thesis
        by simp
    qed
  qed
next
  assume "a = b"
  then show "str_int a = str_int b"
    by simp
qed

lemma other_runtime_key: "analyze_cache_key other_runtime ''x'' '''' = ''analyze_2''"
  by (simp add: analyze_cache_key_def other_runtime_def str_int_2)

text \<open>
  C9 (cache-key determinism). The key is the operation's prefix followed by the decimal
  text of the builtin \<open>hash\<close> of the concatenated inputs, so two processes compute the
  same key exactly when their hash functions agree on that text; Python gives each
  process its own hash function for strings unless the hash seed is fixed. With the
  two example runtimes the keys of the same input are \<open>analyze_1\<close> and \<open>analyze_2\<close>, and
  the entry the first process finds is a miss for the second. Within one process the
  key depends on the concatenation only: the inputs \<open>(ab, c)\<close> and \<open>(a, bc)\<close> share a key.
\<close>

theorem cache_key_follows_process_hash:
  "(analyze_cache_key rt1 code ctx = analyze_cache_key rt2 code ctx
      \<longleftrightarrow> py_hash rt1 (code @ ctx) = py_hash rt2 (code @ ctx))
   \<and> (market_cache_key rt1 p u = market_cache_key rt2 p u
      \<longleftrightarrow> py_hash rt1 (p @ u) = py_hash rt2 (p @ u))
   \<and> analyze_cache_key example_runtime ''x'' '''' = ''analyze_1''
   \<and> analyze_cache_key other_runtime ''x'' '''' = ''analyze_2''
   \<and> cache_lookup fresh_analyzer cached_world (t_cache good_env)
        (analyze_cache_key example_runtime ''x'' '''') = Hit default_result
   \<and> cache_lookup fresh_analyzer cached_world (t_cache good_env)
        (analyze_cache_key other_runtime ''x'' '''') = Miss
   \<and> analyze_cache_key rt1 ''ab'' ''c'' = analyze_cache_key rt1 ''a'' ''bc''"
proof -
  have a: "analyze_cache_key rt1 code ctx = analyze_cache_key rt2 code ctx
      \<longleftrightarrow> py_hash rt1 (code @ ctx) = py_hash rt2 (code @ ctx)"
    by (simp add: analyze_cache_key_def str_int_inj)
  have m: "market_cache_key rt1 p u = market_cache_key rt2 p u
      \<longleftrightarrow> py_hash rt1 (p @ u) = py_hash rt2 (p @ u)"
    by (simp add: market_cache_key_def str_int_inj)
  have miss: "cache_lookup fresh_analyzer cached_world (t_cache good_env)
        (analyze_cache_key other_runtime ''x'' '''') = Miss"
    by (simp add: cache_lookup_def cached_world_def example_keys market_key_example
          other_runtime_key fresh_analyzer_fields cache_path_def)
  have c: "analyze_cache_key rt1 ''ab'' ''c'' = analyze_cache_key rt1 ''a'' ''bc''"
    by (simp add: analyze_cache_key_def)
  from a m example_keys(1) other_runtime_key cached_world_lookups(1) miss c show ?thesis
    by blast
qed

end
